theory Spec2Isabelle
  imports Complex_Main
begin

section \<open>JavaScript values as the dashboard reads them\<close>

text \<open>
  The dashboard (\<^verbatim>\<open>frontend/src/pages/SupermarketDashboard.js\<close>) works on values parsed
  from JSON and on numbers it computes itself. A number is a finite value, an infinity or
  NaN. Finite doubles are read as exact rationals: rounding and overflow of IEEE arithmetic
  are not represented, and the two zeros are one value. A double operation whose arguments
  and exact result are whole numbers of magnitude at most \<open>2 ^ 53\<close> is exact, so there the
  model and the runtime agree; the statements about the increment and decrement round
  trip and about the total are made only there.
\<close>

datatype jsnum = Finite rat | PosInf | NegInf | NaN

text \<open>
  An object carries the address that \<^verbatim>\<open>===\<close> compares and its properties. Arrays do not
  occur in the fields the modelled functions read. Strings are sequences of code units
  below 256.
\<close>

datatype jsval =
    JUndefined
  | JNull
  | JBool bool
  | JNum jsnum
  | JStr string
  | JObj nat "(string \<times> jsval) list"

fun truthy :: "jsval \<Rightarrow> bool" where
  "truthy JUndefined = False"
| "truthy JNull = False"
| "truthy (JBool b) = b"
| "truthy (JNum n) = (n \<noteq> NaN \<and> n \<noteq> Finite 0)"
| "truthy (JStr s) = (s \<noteq> [])"
| "truthy (JObj a ps) = True"

text \<open>\<^verbatim>\<open>a || b\<close>\<close>

definition js_or :: "jsval \<Rightarrow> jsval \<Rightarrow> jsval" where
  "js_or a b = (if truthy a then a else b)"

text \<open>\<^verbatim>\<open>a === b\<close>: primitives by value (NaN equals nothing), objects by address.\<close>

fun strict_eq :: "jsval \<Rightarrow> jsval \<Rightarrow> bool" where
  "strict_eq JUndefined JUndefined = True"
| "strict_eq JNull JNull = True"
| "strict_eq (JBool a) (JBool b) = (a = b)"
| "strict_eq (JNum a) (JNum b) = (a = b \<and> a \<noteq> NaN)"
| "strict_eq (JStr a) (JStr b) = (a = b)"
| "strict_eq (JObj a ps) (JObj b qs) = (a = b)"
| "strict_eq _ _ = False"

text \<open>
  \<^verbatim>\<open>v?.k\<close>: the property of an object, \<^verbatim>\<open>undefined\<close> when it is absent and when \<^verbatim>\<open>v\<close> is
  \<^verbatim>\<open>null\<close> or \<^verbatim>\<open>undefined\<close>. None of the names read here is a property of a primitive.
\<close>

fun opt_get :: "jsval \<Rightarrow> string \<Rightarrow> jsval" where
  "opt_get (JObj a ps) k = (case map_of ps k of Some v \<Rightarrow> v | None \<Rightarrow> JUndefined)"
| "opt_get _ k = JUndefined"

text \<open>\<^verbatim>\<open>v.k\<close>: as \<^verbatim>\<open>v?.k\<close>, but a TypeError (\<open>None\<close>) on \<^verbatim>\<open>null\<close> and \<^verbatim>\<open>undefined\<close>.\<close>

fun get_prop :: "jsval \<Rightarrow> string \<Rightarrow> jsval option" where
  "get_prop JUndefined k = None"
| "get_prop JNull k = None"
| "get_prop v k = Some (opt_get v k)"

subsection \<open>Numbers\<close>

text \<open>
  \<^verbatim>\<open>a + b\<close> on numbers. On finite numbers this is the exact sum, which is the double's sum
  when the arguments and the sum are whole numbers of magnitude at most \<open>2 ^ 53\<close>; elsewhere
  the double may round, or overflow to an infinity.
\<close>

fun num_add :: "jsnum \<Rightarrow> jsnum \<Rightarrow> jsnum" where
  "num_add NaN _ = NaN"
| "num_add _ NaN = NaN"
| "num_add PosInf NegInf = NaN"
| "num_add NegInf PosInf = NaN"
| "num_add PosInf _ = PosInf"
| "num_add _ PosInf = PosInf"
| "num_add NegInf _ = NegInf"
| "num_add _ NegInf = NegInf"
| "num_add (Finite a) (Finite b) = Finite (a + b)"

fun num_neg :: "jsnum \<Rightarrow> jsnum" where
  "num_neg NaN = NaN"
| "num_neg PosInf = NegInf"
| "num_neg NegInf = PosInf"
| "num_neg (Finite a) = Finite (- a)"

definition num_sub :: "jsnum \<Rightarrow> jsnum \<Rightarrow> jsnum" where
  "num_sub a b = num_add a (num_neg b)"

text \<open>The sign of a number that is not NaN: \<open>-1\<close>, \<open>0\<close> or \<open>1\<close>.\<close>

fun num_sgn :: "jsnum \<Rightarrow> rat" where
  "num_sgn (Finite a) = sgn a"
| "num_sgn PosInf = 1"
| "num_sgn NegInf = - 1"
| "num_sgn NaN = 0"

text \<open>
  \<^verbatim>\<open>a * b\<close> on numbers. On finite numbers this is the exact product, which is the double's
  product under the same condition as for the sum.
\<close>

fun num_mul :: "jsnum \<Rightarrow> jsnum \<Rightarrow> jsnum" where
  "num_mul NaN _ = NaN"
| "num_mul _ NaN = NaN"
| "num_mul (Finite a) (Finite b) = Finite (a * b)"
| "num_mul a b =
     (if num_sgn a * num_sgn b = 0 then NaN
      else if num_sgn a * num_sgn b > 0 then PosInf else NegInf)"

text \<open>\<^verbatim>\<open>a > b\<close> on numbers: false as soon as one side is NaN.\<close>

fun num_gt :: "jsnum \<Rightarrow> jsnum \<Rightarrow> bool" where
  "num_gt NaN _ = False"
| "num_gt _ NaN = False"
| "num_gt (Finite a) (Finite b) = (a > b)"
| "num_gt PosInf b = (b \<noteq> PosInf)"
| "num_gt a NegInf = (a \<noteq> NegInf)"
| "num_gt _ _ = False"

text \<open>\<^verbatim>\<open>Math.min(a, b)\<close> and \<^verbatim>\<open>Math.max(a, b)\<close>: NaN as soon as one argument is NaN.\<close>

definition js_min :: "jsnum \<Rightarrow> jsnum \<Rightarrow> jsnum" where
  "js_min a b = (if a = NaN \<or> b = NaN then NaN else if num_gt a b then b else a)"

definition js_max :: "jsnum \<Rightarrow> jsnum \<Rightarrow> jsnum" where
  "js_max a b = (if a = NaN \<or> b = NaN then NaN else if num_gt b a then b else a)"

text \<open>\<^verbatim>\<open>Number.isFinite(n)\<close>\<close>

fun isFinite :: "jsnum \<Rightarrow> bool" where
  "isFinite (Finite a) = True"
| "isFinite _ = False"

text \<open>
  \<^verbatim>\<open>Number(v)\<close>. The conversion of a string is the runtime's numeric-literal parser; it is
  not code of this repository and is the parameter \<open>s2n\<close> of every function that converts.
  A plain object converts to NaN.
\<close>

fun Number :: "(string \<Rightarrow> jsnum) \<Rightarrow> jsval \<Rightarrow> jsnum" where
  "Number s2n JUndefined = NaN"
| "Number s2n JNull = Finite 0"
| "Number s2n (JBool b) = (if b then Finite 1 else Finite 0)"
| "Number s2n (JNum n) = n"
| "Number s2n (JStr s) = s2n s"
| "Number s2n (JObj a ps) = NaN"

subsection \<open>Strings\<close>

text \<open>
  \<^verbatim>\<open>s.trim()\<close> removes white space and line terminators at both ends: among the code units
  below 256 these are TAB, LF, VT, FF, CR, SPACE and NBSP.
\<close>

definition is_ws :: "char \<Rightarrow> bool" where
  "is_ws c = ((of_char c :: nat) \<in> {9, 10, 11, 12, 13, 32, 160})"

definition trim :: "string \<Rightarrow> string" where
  "trim s = rev (dropWhile is_ws (rev (dropWhile is_ws s)))"

section \<open>The supermarket dashboard\<close>

subsection \<open>State\<close>

text \<open>A cart line \<^verbatim>\<open>{ product, qty }\<close>. Every line is built by the dashboard with a number as \<^verbatim>\<open>qty\<close>.\<close>

record cart_line =
  productOf :: jsval
  qty :: jsnum

datatype tab_name = ProductsTab | CartTab | OrdersTab | ProfileTab

text \<open>The toast texts end in an emoji; they are named rather than spelled.\<close>

datatype toast_msg = NoToast | AddedToCart | CartCleared | OrderPlaced

text \<open>
  The component state that the cart and checkout handlers read and write. The fetched
  product list, order list and profile are not part of it.
\<close>

record dash =
  tab :: tab_name
  err :: string
  toast :: toast_msg
  loadingOrders :: bool
  cart :: "cart_line list"
  placing :: bool
  checkoutOpen :: bool
  deliveryAddress :: string
  deliveryDate :: string
  paymentMethod :: string
  orderNote :: string

definition initial :: dash where
  "initial = \<lparr> tab = ProductsTab, err = [], toast = NoToast, loadingOrders = True,
     cart = [], placing = False, checkoutOpen = False, deliveryAddress = [],
     deliveryDate = [], paymentMethod = ''cash'', orderNote = [] \<rparr>"

subsection \<open>Derived values\<close>

definition getProductSupplierId :: "jsval \<Rightarrow> jsval" where
  "getProductSupplierId p =
     js_or (js_or (js_or (js_or (opt_get p ''supplier_id'') (opt_get p ''supplierId''))
                         (opt_get (opt_get p ''supplier'') ''_id''))
                  (opt_get p ''supplier''))
           JNull"

definition cartSupplierId :: "cart_line list \<Rightarrow> jsval" where
  "cartSupplierId c =
     (case c of [] \<Rightarrow> JNull | x # rest \<Rightarrow> getProductSupplierId (productOf x))"

text \<open>The summand of \<^verbatim>\<open>cartTotal\<close>: \<^verbatim>\<open>Number(x.product?.price || 0) * Number(x.qty || 0)\<close>.\<close>

definition lineTotal :: "(string \<Rightarrow> jsnum) \<Rightarrow> cart_line \<Rightarrow> jsnum" where
  "lineTotal s2n x =
     num_mul (Number s2n (js_or (opt_get (productOf x) ''price'') (JNum (Finite 0))))
             (Number s2n (js_or (JNum (qty x)) (JNum (Finite 0))))"

text \<open>
  \<^verbatim>\<open>cart.reduce((sum, x) => sum + ..., 0)\<close>. With the exact sum and product of the model it
  is the runtime's total on carts whose line amounts and running sums are whole numbers of
  magnitude at most \<open>2 ^ 53\<close>.
\<close>

definition cartTotal :: "(string \<Rightarrow> jsnum) \<Rightarrow> cart_line list \<Rightarrow> jsnum" where
  "cartTotal s2n c = foldl (\<lambda>sum x. num_add sum (lineTotal s2n x)) (Finite 0) c"

subsection \<open>Cart actions\<close>

text \<open>\<^verbatim>\<open>prev.findIndex(f)\<close>: the first index whose element satisfies \<open>f\<close>, \<open>None\<close> for \<open>-1\<close>.\<close>

fun findIndex :: "('a \<Rightarrow> bool) \<Rightarrow> 'a list \<Rightarrow> nat option" where
  "findIndex f [] = None"
| "findIndex f (x # xs) =
     (if f x then Some 0 else (case findIndex f xs of None \<Rightarrow> None | Some i \<Rightarrow> Some (Suc i)))"

definition same_id :: "jsval \<Rightarrow> cart_line \<Rightarrow> bool" where
  "same_id productId x = strict_eq (opt_get (productOf x) ''_id'') productId"

definition addToCart :: "jsval \<Rightarrow> dash \<Rightarrow> dash" where
  "addToCart product st =
     (let supplierId = getProductSupplierId product in
      if \<not> truthy supplierId then
        st\<lparr>err := ''This product has no supplier info. Add supplier_id to product in DB.''\<rparr>
      else if truthy (cartSupplierId (cart st)) \<and>
              \<not> strict_eq supplierId (cartSupplierId (cart st)) then
        st\<lparr>err := ''Cart can contain products from ONE supplier only. Clear cart to switch supplier.''\<rparr>
      else
        st\<lparr>err := [],
           cart :=
             (case findIndex (same_id (opt_get product ''_id'')) (cart st) of
                Some idx \<Rightarrow>
                  (cart st)[idx := (cart st ! idx)
                      \<lparr>qty := js_min (Finite 999) (num_add (qty (cart st ! idx)) (Finite 1))\<rparr>]
              | None \<Rightarrow> cart st @ [\<lparr>productOf = product, qty = Finite 1\<rparr>]),
           toast := AddedToCart\<rparr>)"

definition updateQty :: "(string \<Rightarrow> jsnum) \<Rightarrow> jsval \<Rightarrow> jsval \<Rightarrow> dash \<Rightarrow> dash" where
  "updateQty s2n productId q st =
     (let n = Number s2n q in
      if \<not> isFinite n then st
      else st\<lparr>cart :=
        filter (\<lambda>x. num_gt (qty x) (Finite 0))
          (map (\<lambda>x. if same_id productId x then x\<lparr>qty := js_max (Finite 0) n\<rparr> else x)
             (cart st))\<rparr>)"

definition incQty :: "jsval \<Rightarrow> dash \<Rightarrow> dash" where
  "incQty productId st =
     st\<lparr>cart :=
       map (\<lambda>x. if same_id productId x
                then x\<lparr>qty := js_min (Finite 999) (num_add (qty x) (Finite 1))\<rparr> else x)
         (cart st)\<rparr>"

definition decQty :: "jsval \<Rightarrow> dash \<Rightarrow> dash" where
  "decQty productId st =
     st\<lparr>cart :=
       filter (\<lambda>x. num_gt (qty x) (Finite 0))
         (map (\<lambda>x. if same_id productId x
                  then x\<lparr>qty := js_max (Finite 0) (num_sub (qty x) (Finite 1))\<rparr> else x)
            (cart st))\<rparr>"

definition clearCart :: "dash \<Rightarrow> dash" where
  "clearCart st =
     st\<lparr>cart := [], checkoutOpen := False, deliveryAddress := [], deliveryDate := [],
        paymentMethod := ''cash'', orderNote := [], toast := CartCleared\<rparr>"

subsection \<open>Placing an order\<close>

text \<open>
  What a \<^verbatim>\<open>fetch\<close> followed by \<^verbatim>\<open>safeJson\<close> gives: an exception with its message, or a
  response with its \<^verbatim>\<open>ok\<close> flag and the \<^verbatim>\<open>message\<close> field of the body (empty when absent).
\<close>

datatype fetch_outcome = Threw string | Responded bool string

text \<open>\<^verbatim>\<open>a || b\<close> on strings.\<close>

definition str_or :: "string \<Rightarrow> string \<Rightarrow> string" where
  "str_or a b = (if a \<noteq> [] then a else b)"

definition loadOrders :: "fetch_outcome \<Rightarrow> dash \<Rightarrow> dash" where
  "loadOrders out st =
     (case out of
        Threw m \<Rightarrow> st\<lparr>err := str_or m ''Orders load failed'', loadingOrders := False\<rparr>
      | Responded ok m \<Rightarrow>
          if \<not> ok then
            st\<lparr>err := str_or (str_or m ''Failed to load orders'') ''Orders load failed'',
               loadingOrders := False\<rparr>
          else st\<lparr>err := [], loadingOrders := False\<rparr>)"

text \<open>The argument \<^verbatim>\<open>extra\<close> of \<^verbatim>\<open>placeOrder\<close>; an absent field is \<^verbatim>\<open>undefined\<close>.\<close>

record checkout_details =
  extra_delivery_address :: jsval
  extra_delivery_date :: jsval
  extra_payment_method :: jsval
  extra_note :: jsval

record order_item =
  product_id :: jsval
  item_qty :: jsnum
  item_price :: jsval

text \<open>The body of \<^verbatim>\<open>POST /api/orders\<close>.\<close>

record payload =
  supplier_id :: jsval
  items :: "order_item list"
  delivery_address :: jsval
  delivery_date :: jsval
  payment_method :: jsval
  order_note :: jsval
  total_amount :: jsnum

text \<open>
  \<^verbatim>\<open>cart.map((x) => ({ product_id: x.product._id, qty: x.qty, price: x.product.price }))\<close>;
  \<open>None\<close> is the TypeError of reading a property of \<^verbatim>\<open>null\<close> or \<^verbatim>\<open>undefined\<close>.
\<close>

fun payload_items :: "cart_line list \<Rightarrow> order_item list option" where
  "payload_items [] = Some []"
| "payload_items (x # xs) =
     (case get_prop (productOf x) ''_id'' of
        None \<Rightarrow> None
      | Some i \<Rightarrow>
          (case get_prop (productOf x) ''price'' of
             None \<Rightarrow> None
           | Some p \<Rightarrow>
               (case payload_items xs of
                  None \<Rightarrow> None
                | Some rest \<Rightarrow> Some (\<lparr>product_id = i, item_qty = qty x, item_price = p\<rparr> # rest))))"

text \<open>The engine's message of that TypeError; it is not empty.\<close>

definition typeErrorMessage :: string where
  "typeErrorMessage = ''TypeError''"

text \<open>
  \<^verbatim>\<open>placeOrder(extra)\<close>, with the outcome of its \<^verbatim>\<open>POST\<close> and of the order reload that follows
  an accepted order. The result is the state the handler leaves and the body it sent, if
  it sent one.
\<close>

definition placeOrder ::
  "(string \<Rightarrow> jsnum) \<Rightarrow> checkout_details \<Rightarrow> fetch_outcome \<Rightarrow> fetch_outcome \<Rightarrow> dash
     \<Rightarrow> dash \<times> payload option" where
  "placeOrder s2n extra post reload st =
     (if cart st = [] then (st\<lparr>err := ''Cart is empty.'', tab := ProductsTab\<rparr>, None)
      else
        let supplierId = cartSupplierId (cart st) in
        if \<not> truthy supplierId then
          (st\<lparr>err := ''Cannot place order: supplier not found for cart items.''\<rparr>, None)
        else
          (case payload_items (cart st) of
             None \<Rightarrow> (st\<lparr>err := str_or typeErrorMessage ''Place order failed'', placing := False\<rparr>, None)
           | Some its \<Rightarrow>
               let body = \<lparr>supplier_id = supplierId, items = its,
                      delivery_address = js_or (extra_delivery_address extra) (JStr []),
                      delivery_date = js_or (extra_delivery_date extra) (JStr []),
                      payment_method = js_or (extra_payment_method extra) (JStr ''cash''),
                      order_note = js_or (extra_note extra) (JStr []),
                      total_amount = cartTotal s2n (cart st)\<rparr>
               in
               (case post of
                  Threw m \<Rightarrow>
                    (st\<lparr>err := str_or m ''Place order failed'', placing := False\<rparr>, Some body)
                | Responded ok m \<Rightarrow>
                    if \<not> ok then
                      (st\<lparr>err := str_or (str_or m ''Order failed'') ''Place order failed'',
                          placing := False\<rparr>, Some body)
                    else
                      ((loadOrders reload
                          ((clearCart (st\<lparr>err := [], toast := OrderPlaced\<rparr>))\<lparr>tab := OrdersTab\<rparr>))
                         \<lparr>placing := False\<rparr>, Some body))))"

text \<open>The \<^verbatim>\<open>onClick\<close> of the Confirm Order button, the only caller of \<^verbatim>\<open>placeOrder\<close>.\<close>

definition confirmOrder ::
  "(string \<Rightarrow> jsnum) \<Rightarrow> fetch_outcome \<Rightarrow> fetch_outcome \<Rightarrow> dash \<Rightarrow> dash \<times> payload option" where
  "confirmOrder s2n post reload st =
     (if trim (deliveryAddress st) = [] then
        (st\<lparr>err := ''Please enter delivery address.''\<rparr>, None)
      else if \<not> truthy (cartSupplierId (cart st)) then
        (st\<lparr>err := ''Supplier ID missing in cart items.''\<rparr>, None)
      else
        placeOrder s2n
          \<lparr>extra_delivery_address = JStr (deliveryAddress st),
           extra_delivery_date = JStr (deliveryDate st),
           extra_payment_method = JStr (paymentMethod st),
           extra_note = JStr (orderNote st)\<rparr>
          post reload st)"

subsection \<open>The handlers as events\<close>

text \<open>The values of the three \<^verbatim>\<open><option>\<close> elements of the payment select.\<close>

datatype pay_option = OptCash | OptBank | OptCard

fun option_value :: "pay_option \<Rightarrow> string" where
  "option_value OptCash = ''cash''"
| "option_value OptBank = ''bank''"
| "option_value OptCard = ''card''"

text \<open>
  One event for each handler that writes the modelled state. \<open>Loader\<close> stands for
  \<^verbatim>\<open>loadProducts\<close> and \<^verbatim>\<open>loadMe\<close>, which write only \<^verbatim>\<open>err\<close> of it. The arguments are not
  restricted to what the rendered page passes.
\<close>

datatype event =
    SetTab tab_name
  | HideToast
  | Loader string
  | LoadOrders fetch_outcome
  | AddToCart jsval
  | AddAndCart jsval
  | UpdateQty jsval jsval
  | IncQty jsval
  | DecQty jsval
  | ClearCart
  | SetCheckoutOpen bool
  | SetDeliveryAddress string
  | SetDeliveryDate string
  | SetPaymentMethod pay_option
  | SetOrderNote string
  | ConfirmOrder fetch_outcome fetch_outcome

fun step :: "(string \<Rightarrow> jsnum) \<Rightarrow> event \<Rightarrow> dash \<Rightarrow> dash" where
  "step s2n (SetTab t) st = st\<lparr>tab := t\<rparr>"
| "step s2n HideToast st = st\<lparr>toast := NoToast\<rparr>"
| "step s2n (Loader m) st = st\<lparr>err := m\<rparr>"
| "step s2n (LoadOrders out) st = loadOrders out st"
| "step s2n (AddToCart p) st = addToCart p st"
| "step s2n (AddAndCart p) st = (addToCart p st)\<lparr>tab := CartTab\<rparr>"
| "step s2n (UpdateQty i q) st = updateQty s2n i q st"
| "step s2n (IncQty i) st = incQty i st"
| "step s2n (DecQty i) st = decQty i st"
| "step s2n ClearCart st = clearCart st"
| "step s2n (SetCheckoutOpen b) st = st\<lparr>checkoutOpen := b\<rparr>"
| "step s2n (SetDeliveryAddress a) st = st\<lparr>deliveryAddress := a\<rparr>"
| "step s2n (SetDeliveryDate d) st = st\<lparr>deliveryDate := d\<rparr>"
| "step s2n (SetPaymentMethod v) st = st\<lparr>paymentMethod := option_value v\<rparr>"
| "step s2n (SetOrderNote n) st = st\<lparr>orderNote := n\<rparr>"
| "step s2n (ConfirmOrder post reload) st = fst (confirmOrder s2n post reload st)"

text \<open>The states the dashboard reaches from its initial state.\<close>

inductive reachable :: "(string \<Rightarrow> jsnum) \<Rightarrow> dash \<Rightarrow> bool" for s2n where
  reach_initial: "reachable s2n initial"
| reach_step: "reachable s2n st \<Longrightarrow> reachable s2n (step s2n e st)"

text \<open>The state after a list of events, oldest first.\<close>

definition run :: "(string \<Rightarrow> jsnum) \<Rightarrow> event list \<Rightarrow> dash \<Rightarrow> dash" where
  "run s2n es st = foldl (\<lambda>s e. step s2n e s) st es"

section \<open>The supplier's buyers\<close>

text \<open>
  \<^verbatim>\<open>getSupplierBuyers\<close> (\<^verbatim>\<open>GET /api/supermarkets/buyers\<close>) runs an aggregation pipeline over the
  orders and joins the supermarket documents. The Order and Supermarket models are not
  among the sources: an order is taken with the fields the pipeline reads, the two
  references as ObjectIds, the amount as an exact number and the creation time as
  milliseconds; a supermarket document with the fields the join selects.
\<close>

type_synonym oid = string

record order_doc =
  supplier :: oid
  supermarket :: oid
  totalAmount :: rat
  createdAt :: int

record supermarket_doc =
  sm_id :: oid
  name :: jsval
  contactEmail :: jsval
  address :: jsval

text \<open>A document that \<^verbatim>\<open>$group\<close> emits: \<^verbatim>\<open>_id\<close> and the three accumulators.\<close>

record group_row =
  row_id :: oid
  totalOrders :: nat
  totalRevenue :: rat
  lastOrderDate :: int

text \<open>\<^verbatim>\<open>{ $match: { supplier: ObjectId(supplierId) } }\<close>\<close>

definition match_stage :: "oid \<Rightarrow> order_doc list \<Rightarrow> order_doc list" where
  "match_stage supplierId docs = filter (\<lambda>d. supplier d = supplierId) docs"

text \<open>
  \<^verbatim>\<open>$group\<close> keeps one accumulator document per key and feeds it each input document:
  \<^verbatim>\<open>$sum: 1\<close>, \<^verbatim>\<open>$sum: "$totalAmount"\<close> and \<^verbatim>\<open>$max: "$createdAt"\<close>.
\<close>

fun group_step :: "order_doc \<Rightarrow> group_row list \<Rightarrow> group_row list" where
  "group_step d [] =
     [\<lparr>row_id = supermarket d, totalOrders = 1, totalRevenue = totalAmount d,
       lastOrderDate = createdAt d\<rparr>]"
| "group_step d (r # rs) =
     (if row_id r = supermarket d then
        r\<lparr>totalOrders := totalOrders r + 1,
          totalRevenue := totalRevenue r + totalAmount d,
          lastOrderDate := max (lastOrderDate r) (createdAt d)\<rparr> # rs
      else r # group_step d rs)"

definition group_stage :: "order_doc list \<Rightarrow> group_row list" where
  "group_stage docs = foldl (\<lambda>rows d. group_step d rows) [] docs"

text \<open>
  \<^verbatim>\<open>{ $sort: { totalRevenue: -1 } }\<close>. The database leaves the order of equal keys open; the
  model fixes one, and no statement below depends on it.
\<close>

definition sort_stage :: "group_row list \<Rightarrow> group_row list" where
  "sort_stage rows = sort_key (\<lambda>r. - totalRevenue r) rows"

definition aggregate :: "oid \<Rightarrow> order_doc list \<Rightarrow> group_row list" where
  "aggregate supplierId docs = sort_stage (group_stage (match_stage supplierId docs))"

text \<open>\<^verbatim>\<open>Supermarket.find({ _id: { $in: supermarketIds } })\<close>\<close>

definition find_in :: "oid list \<Rightarrow> supermarket_doc list \<Rightarrow> supermarket_doc list" where
  "find_in ids dir = filter (\<lambda>m. sm_id m \<in> set ids) dir"

text \<open>\<^verbatim>\<open>new Map(markets.map((m) => [m._id.toString(), m]))\<close>: a later entry replaces an earlier one.\<close>

definition markets_map :: "supermarket_doc list \<Rightarrow> (oid \<rightharpoonup> supermarket_doc)" where
  "markets_map markets = map_of (rev (map (\<lambda>m. (sm_id m, m)) markets))"

text \<open>\<^verbatim>\<open>sm?.f\<close> on the result of \<^verbatim>\<open>map.get\<close>.\<close>

definition sm_field :: "(supermarket_doc \<Rightarrow> jsval) \<Rightarrow> supermarket_doc option \<Rightarrow> jsval" where
  "sm_field f sm = (case sm of None \<Rightarrow> JUndefined | Some m \<Rightarrow> f m)"

text \<open>An element of the response.\<close>

record buyer_summary =
  supermarketId :: oid
  buyer_name :: jsval
  buyer_contactEmail :: jsval
  buyer_address :: jsval
  buyer_totalOrders :: nat
  buyer_totalRevenue :: rat
  buyer_lastOrderDate :: int

definition getSupplierBuyers ::
  "order_doc list \<Rightarrow> supermarket_doc list \<Rightarrow> oid \<Rightarrow> buyer_summary list" where
  "getSupplierBuyers orders directory supplierId =
     (let rows = aggregate supplierId orders;
          supermarketIds = map row_id rows;
          markets = find_in supermarketIds directory;
          mp = markets_map markets
      in map (\<lambda>r.
            let sm = mp (row_id r) in
            \<lparr>supermarketId = row_id r,
             buyer_name = js_or (sm_field name sm) (JStr ''Unknown''),
             buyer_contactEmail = js_or (sm_field contactEmail sm) (JStr []),
             buyer_address = js_or (sm_field address sm) (JStr []),
             buyer_totalOrders = totalOrders r,
             buyer_totalRevenue = totalRevenue r,
             buyer_lastOrderDate = lastOrderDate r\<rparr>) rows)"

text \<open>The orders of one supplier placed by one buyer, as the specification groups them.\<close>

definition orders_of :: "oid \<Rightarrow> oid \<Rightarrow> order_doc list \<Rightarrow> order_doc list" where
  "orders_of supplierId buyer docs =
     filter (\<lambda>d. supplier d = supplierId \<and> supermarket d = buyer) docs"

section \<open>Notions the statements use\<close>

definition supplierOf :: "cart_line \<Rightarrow> jsval" where
  "supplierOf x = getProductSupplierId (productOf x)"

text \<open>A line whose quantity is a finite number above zero.\<close>

definition positive_qty :: "cart_line \<Rightarrow> bool" where
  "positive_qty x = (case qty x of Finite q \<Rightarrow> 0 < q | _ \<Rightarrow> False)"

text \<open>Every line has a supplier identifier, and any two lines have the same one.\<close>

definition one_supplier :: "cart_line list \<Rightarrow> bool" where
  "one_supplier c =
     (\<forall>x\<in>set c. truthy (supplierOf x) \<and> (\<forall>y\<in>set c. strict_eq (supplierOf x) (supplierOf y)))"

text \<open>A quantity that is a whole number below 999.\<close>

definition whole_below_999 :: "jsnum \<Rightarrow> bool" where
  "whole_below_999 n = (case n of Finite q \<Rightarrow> q \<in> \<int> \<and> q < 999 | _ \<Rightarrow> False)"










text \<open>The statistics of a response element, without the joined fields.\<close>

definition buyer_stats :: "buyer_summary \<Rightarrow> oid \<times> nat \<times> rat \<times> int" where
  "buyer_stats b =
     (supermarketId b, buyer_totalOrders b, buyer_totalRevenue b, buyer_lastOrderDate b)"

text \<open>The accumulator document of a first order, and the one after a further order.\<close>

definition new_row :: "order_doc \<Rightarrow> group_row" where
  "new_row d = \<lparr>row_id = supermarket d, totalOrders = 1, totalRevenue = totalAmount d,
       lastOrderDate = createdAt d\<rparr>"

definition upd_row :: "order_doc \<Rightarrow> group_row \<Rightarrow> group_row" where
  "upd_row d r = r\<lparr>totalOrders := totalOrders r + 1,
          totalRevenue := totalRevenue r + totalAmount d,
          lastOrderDate := max (lastOrderDate r) (createdAt d)\<rparr>"

text \<open>A group document that summarises the documents of its key.\<close>

definition row_ok :: "order_doc list \<Rightarrow> group_row \<Rightarrow> bool" where
  "row_ok docs r =
     (let g = filter (\<lambda>d. supermarket d = row_id r) docs in
      g \<noteq> [] \<and> totalOrders r = length g \<and> totalRevenue r = sum_list (map totalAmount g) \<and>
      lastOrderDate r = Max (createdAt ` set g))"

section \<open>Example data\<close>

text \<open>Item A of supplier S1 at 10.00 and item B of supplier S2 at 5.00.\<close>

definition item_A :: jsval where
  "item_A = JObj 1 [(''_id'', JStr ''A''), (''name'', JStr ''Rice''),
     (''price'', JNum (Finite 10)), (''supplier_id'', JStr ''S1'')]"

definition item_B :: jsval where
  "item_B = JObj 2 [(''_id'', JStr ''B''), (''name'', JStr ''Salt''),
     (''price'', JNum (Finite 5)), (''supplier'', JObj 3 [(''_id'', JStr ''S2'')])]"

text \<open>An item without any supplier field.\<close>

definition item_C :: jsval where
  "item_C = JObj 4 [(''_id'', JStr ''C''), (''price'', JNum (Finite 1))]"

text \<open>
  The string conversion of the examples. The only string an example converts is \<open>abc\<close>,
  which the runtime converts to NaN.
\<close>

definition no_strings :: "string \<Rightarrow> jsnum" where
  "no_strings s = NaN"

text \<open>The dashboard with item A in the cart at a given quantity.\<close>

definition with_A :: "rat \<Rightarrow> dash" where
  "with_A q = run no_strings [AddToCart item_A, UpdateQty (JStr ''A'') (JNum (Finite q))] initial"

definition example_orders :: "order_doc list" where
  "example_orders =
     [\<lparr>supplier = ''SUP1'', supermarket = ''SM1'', totalAmount = 100, createdAt = 1000\<rparr>,
      \<lparr>supplier = ''SUP2'', supermarket = ''SM1'', totalAmount = 999, createdAt = 4000\<rparr>,
      \<lparr>supplier = ''SUP1'', supermarket = ''SM2'', totalAmount = 75, createdAt = 2000\<rparr>,
      \<lparr>supplier = ''SUP1'', supermarket = ''SM1'', totalAmount = 50, createdAt = 3000\<rparr>]"

text \<open>A directory that knows SM1 and has no record of SM2.\<close>

definition example_directory :: "supermarket_doc list" where
  "example_directory =
     [\<lparr>sm_id = ''SM1'', name = JStr ''Fresh Mart'', contactEmail = JStr ''shop@fresh.example'',
       address = JStr ''1 Main St''\<rparr>]"




text \<open>Item A in the cart, an address typed and the card option selected.\<close>

definition checkout_A :: dash where
  "checkout_A =
     run no_strings
       [AddToCart item_A, SetDeliveryAddress ''12 Main St'', SetPaymentMethod OptCard] initial"

text \<open>An empty cart with an address typed.\<close>

definition checkout_empty :: dash where
  "checkout_empty = run no_strings [SetDeliveryAddress ''12 Main St''] initial"

text \<open>A response that accepts, and one that rejects with a message.\<close>

definition accepted :: fetch_outcome where
  "accepted = Responded True []"

definition rejected :: fetch_outcome where
  "rejected = Responded False ''Out of stock''"

text \<open>Checkout details with a blank address and nothing else set.\<close>

definition blank_details :: checkout_details where
  "blank_details =
     \<lparr>extra_delivery_address = JStr ''   '', extra_delivery_date = JUndefined,
      extra_payment_method = JUndefined, extra_note = JUndefined\<rparr>"

section \<open>Auxiliary facts\<close>

subsection \<open>Values and lists\<close>

lemma strict_eq_sym: "strict_eq a b \<Longrightarrow> strict_eq b a"
  by (cases a; cases b) auto

lemma strict_eq_trans: "strict_eq a b \<Longrightarrow> strict_eq b c \<Longrightarrow> strict_eq a c"
  by (cases a; cases b; cases c) auto

lemma strict_eq_refl: "truthy a \<Longrightarrow> strict_eq a a"
  by (cases a) auto


lemma findIndex_Some:
  "findIndex f xs = Some i \<Longrightarrow> i < length xs \<and> f (xs ! i) \<and> (\<forall>j<i. \<not> f (xs ! j))"
proof (induction xs arbitrary: i)
  case Nil
  then show ?case by simp
next
  case (Cons x xs)
  show ?case
  proof (cases "f x")
    case True
    with Cons.prems show ?thesis by simp
  next
    case False
    with Cons.prems obtain k where k: "findIndex f xs = Some k" "i = Suc k"
      by (auto split: option.splits)
    from Cons.IH[OF k(1)] False k(2) show ?thesis
      by (auto simp: less_Suc_eq_0_disj)
  qed
qed

lemma js_min_Finite: "js_min (Finite a) (Finite b) = Finite (min a b)"
  by (auto simp: js_min_def)

lemma js_max_Finite: "js_max (Finite a) (Finite b) = Finite (max a b)"
  by (auto simp: js_max_def)

lemma isFinite_iff: "isFinite n \<longleftrightarrow> (\<exists>q. n = Finite q)"
  by (cases n) auto

subsection \<open>Quantities stay positive\<close>

lemma positive_qty_iff: "positive_qty x \<longleftrightarrow> (\<exists>q. qty x = Finite q \<and> 0 < q)"
  by (auto simp: positive_qty_def split: jsnum.splits)

lemma positive_num_gt: "positive_qty x \<Longrightarrow> num_gt (qty x) (Finite 0)"
  by (auto simp: positive_qty_iff)

lemma positive_inc:
  "positive_qty x \<Longrightarrow>
   positive_qty (x\<lparr>qty := js_min (Finite 999) (num_add (qty x) (Finite 1))\<rparr>)"
  by (auto simp: positive_qty_iff js_min_Finite)

lemma gt_finite_positive:
  "isFinite (qty x) \<Longrightarrow> num_gt (qty x) (Finite 0) \<Longrightarrow> positive_qty x"
  by (auto simp: isFinite_iff positive_qty_iff)

lemma addToCart_positive:
  assumes "\<forall>x\<in>set (cart st). positive_qty x"
  shows "\<forall>x\<in>set (cart (addToCart p st)). positive_qty x"
proof (cases "findIndex (same_id (opt_get p ''_id'')) (cart st)")
  case None
  with assms show ?thesis by (auto simp: addToCart_def Let_def positive_qty_iff)
next
  case (Some i)
  from findIndex_Some[OF Some] have i: "i < length (cart st)" by simp
  with assms have "positive_qty (cart st ! i)" by simp
  from positive_inc[OF this] assms
  have "\<forall>x\<in>set ((cart st)[i := (cart st ! i)
            \<lparr>qty := js_min (Finite 999) (num_add (qty (cart st ! i)) (Finite 1))\<rparr>]). positive_qty x"
    using set_update_subset_insert[of "cart st" i] by blast
  with assms Some show ?thesis
    by (simp add: addToCart_def Let_def)
qed

lemma updateQty_positive:
  assumes "\<forall>x\<in>set (cart st). positive_qty x"
  shows "\<forall>x\<in>set (cart (updateQty s2n i q st)). positive_qty x"
proof (cases "isFinite (Number s2n q)")
  case False
  with assms show ?thesis by (simp add: updateQty_def Let_def)
next
  case True
  then obtain n where n: "Number s2n q = Finite n" by (auto simp: isFinite_iff)
  show ?thesis
  proof
    fix x assume "x \<in> set (cart (updateQty s2n i q st))"
    with n obtain y where y: "y \<in> set (cart st)" "num_gt (qty x) (Finite 0)"
      "x = (if same_id i y then y\<lparr>qty := js_max (Finite 0) (Finite n)\<rparr> else y)"
      by (auto simp: updateQty_def Let_def)
    from y(1) assms have "positive_qty y" by simp
    with y(3) have "isFinite (qty x)" by (auto simp: js_max_Finite positive_qty_iff)
    from this y(2) show "positive_qty x" by (rule gt_finite_positive)
  qed
qed

lemma incQty_positive:
  assumes "\<forall>x\<in>set (cart st). positive_qty x"
  shows "\<forall>x\<in>set (cart (incQty i st)). positive_qty x"
  using assms by (auto simp: incQty_def intro: positive_inc)

lemma decQty_positive:
  assumes "\<forall>x\<in>set (cart st). positive_qty x"
  shows "\<forall>x\<in>set (cart (decQty i st)). positive_qty x"
proof
  fix x assume "x \<in> set (cart (decQty i st))"
  then obtain y where y: "y \<in> set (cart st)" "num_gt (qty x) (Finite 0)"
      "x = (if same_id i y then y\<lparr>qty := js_max (Finite 0) (num_sub (qty y) (Finite 1))\<rparr> else y)"
    by (auto simp: decQty_def)
  from y(1) assms have "positive_qty y" by simp
  with y(3) have "isFinite (qty x)"
    by (auto simp: js_max_Finite positive_qty_iff num_sub_def)
  from this y(2) show "positive_qty x" by (rule gt_finite_positive)
qed

subsection \<open>What a handler can do to the cart\<close>

lemma loadOrders_cart: "cart (loadOrders out st) = cart st"
  by (simp add: loadOrders_def split: fetch_outcome.splits)

lemma placeOrder_cart:
  "cart (fst (placeOrder s2n extra post reload st)) = cart st \<or>
   cart (fst (placeOrder s2n extra post reload st)) = []"
  by (simp add: placeOrder_def Let_def loadOrders_cart clearCart_def
      split: option.splits fetch_outcome.splits)

lemma confirmOrder_cart:
  "cart (fst (confirmOrder s2n post reload st)) = cart st \<or>
   cart (fst (confirmOrder s2n post reload st)) = []"
  using placeOrder_cart by (auto simp: confirmOrder_def)

lemma step_cart:
  "cart (step s2n e st) = cart st \<or> cart (step s2n e st) = [] \<or>
   (\<exists>p. cart (step s2n e st) = cart (addToCart p st)) \<or>
   (\<exists>i q. cart (step s2n e st) = cart (updateQty s2n i q st)) \<or>
   (\<exists>i. cart (step s2n e st) = cart (incQty i st)) \<or>
   (\<exists>i. cart (step s2n e st) = cart (decQty i st))"
proof (cases e)
  case (ConfirmOrder post reload)
  with confirmOrder_cart[of s2n post reload st] show ?thesis by auto
next
  case (AddToCart p)
  then show ?thesis by auto
next
  case (AddAndCart p)
  then have "cart (step s2n e st) = cart (addToCart p st)" by simp
  then show ?thesis by blast
next
  case (UpdateQty i q)
  then show ?thesis by auto
next
  case (IncQty i)
  then show ?thesis by auto
next
  case (DecQty i)
  then show ?thesis by auto
next
  case ClearCart
  then show ?thesis by (simp add: clearCart_def)
next
  case (LoadOrders out)
  then show ?thesis by (simp add: loadOrders_cart)
qed simp_all

lemma reachable_positive: "reachable s2n st \<Longrightarrow> \<forall>x\<in>set (cart st). positive_qty x"
proof (induction rule: reachable.induct)
  case reach_initial
  show ?case by (simp add: initial_def)
next
  case (reach_step st e)
  note IH = reach_step.IH
  from step_cart[of s2n e st] addToCart_positive[OF IH] updateQty_positive[OF IH]
    incQty_positive[OF IH] decQty_positive[OF IH] IH
  show ?case by (elim disjE exE) simp_all
qed

lemma reachable_run: "reachable s2n st \<Longrightarrow> reachable s2n (run s2n es st)"
proof (induction es arbitrary: st)
  case Nil
  then show ?case by (simp add: run_def)
next
  case (Cons e es)
  from Cons.prems have "reachable s2n (step s2n e st)" by (rule reach_step)
  from Cons.IH[OF this] show ?case by (simp add: run_def)
qed

subsection \<open>The grouping stage\<close>

lemma group_step_ids:
  "map row_id (group_step d rows) =
     (if supermarket d \<in> row_id ` set rows then map row_id rows
      else map row_id rows @ [supermarket d])"
  by (induction rows) auto

lemma group_step_mem:
  "distinct (map row_id rows) \<Longrightarrow> r' \<in> set (group_step d rows) \<Longrightarrow>
     (row_id r' \<noteq> supermarket d \<and> r' \<in> set rows) \<or>
     (\<exists>r\<in>set rows. row_id r = supermarket d \<and> r' = upd_row d r) \<or>
     (supermarket d \<notin> row_id ` set rows \<and> r' = new_row d)"
proof (induction rows)
  case Nil
  then show ?case by (simp add: new_row_def)
next
  case (Cons r rs)
  show ?case
  proof (cases "row_id r = supermarket d")
    case True
    from Cons.prems(2) True have "r' = upd_row d r \<or> r' \<in> set rs"
      by (simp add: upd_row_def)
    then show ?thesis
    proof
      assume "r' = upd_row d r"
      with True show ?thesis by simp
    next
      assume m: "r' \<in> set rs"
      with Cons.prems(1) True have "row_id r' \<noteq> supermarket d" by force
      with m show ?thesis by simp
    qed
  next
    case False
    with Cons.prems have "r' = r \<or> r' \<in> set (group_step d rs)" by auto
    then show ?thesis
    proof
      assume "r' = r"
      with False show ?thesis by simp
    next
      assume m: "r' \<in> set (group_step d rs)"
      from Cons.prems have "distinct (map row_id rs)" by simp
      from Cons.IH[OF this m] False show ?thesis by auto
    qed
  qed
qed

lemma group_stage_snoc: "group_stage (docs @ [d]) = group_step d (group_stage docs)"
  by (simp add: group_stage_def)

lemma group_stage_inv:
  "distinct (map row_id (group_stage docs)) \<and>
   set (map row_id (group_stage docs)) = supermarket ` set docs \<and>
   (\<forall>r\<in>set (group_stage docs). row_ok docs r)"
proof (induction docs rule: rev_induct)
  case Nil
  then show ?case by (simp add: group_stage_def)
next
  case (snoc d docs)
  let ?G = "group_stage docs"
  from snoc have dist: "distinct (map row_id ?G)"
    and ids: "set (map row_id ?G) = supermarket ` set docs"
    and ok: "\<forall>r\<in>set ?G. row_ok docs r" by auto
  have d1: "distinct (map row_id (group_step d ?G))"
    using dist by (auto simp: group_step_ids)
  have d2: "set (map row_id (group_step d ?G)) = supermarket ` set (docs @ [d])"
    using ids by (auto simp: group_step_ids)
  have d3: "row_ok (docs @ [d]) r'" if m: "r' \<in> set (group_step d ?G)" for r'
  proof -
    from group_step_mem[OF dist m] consider
      (other) "row_id r' \<noteq> supermarket d" "r' \<in> set ?G"
      | (upd) r where "r \<in> set ?G" "row_id r = supermarket d" "r' = upd_row d r"
      | (new) "supermarket d \<notin> row_id ` set ?G" "r' = new_row d" by blast
    then show ?thesis
    proof cases
      case other
      with ok have "row_ok docs r'" by simp
      with other(1) show ?thesis by (auto simp: row_ok_def Let_def)
    next
      case upd
      with ok have r: "row_ok docs r" by simp
      let ?g = "filter (\<lambda>x. supermarket x = row_id r) docs"
      from r have ne: "?g \<noteq> []" by (simp add: row_ok_def Let_def)
      then have ne': "createdAt ` set ?g \<noteq> {}" by (metis set_empty image_is_empty)
      have "Max (insert (createdAt d) (createdAt ` set ?g)) =
              max (createdAt d) (Max (createdAt ` set ?g))"
        using ne' by (intro Max_insert) auto
      with r upd(2,3) ne show ?thesis
        by (auto simp: row_ok_def Let_def upd_row_def max.commute)
    next
      case new
      with ids have "supermarket d \<notin> supermarket ` set docs" by simp
      then have "filter (\<lambda>x. supermarket x = supermarket d) docs = []"
        unfolding filter_empty_conv by (metis imageI)
      with new(2) show ?thesis by (simp add: row_ok_def Let_def new_row_def)
    qed
  qed
  from d1 d2 d3 show ?case by (simp add: group_stage_snoc)
qed

lemma sort_stage_set: "set (sort_stage rows) = set rows"
  by (simp add: sort_stage_def)

lemma sort_stage_distinct_ids:
  "distinct (map row_id (sort_stage rows)) = distinct (map row_id rows)"
  by (simp add: sort_stage_def distinct_map)

lemma sort_stage_sorted:
  "sorted_wrt (\<lambda>a b. totalRevenue a \<ge> totalRevenue b) (sort_stage rows)"
proof -
  have "sorted (map (\<lambda>r. - totalRevenue r) (sort_stage rows))"
    by (simp add: sort_stage_def)
  then show ?thesis by (simp add: sorted_wrt_map)
qed

lemma filter_orders_of:
  "filter (\<lambda>d. supermarket d = b) (match_stage s docs) = orders_of s b docs"
  by (simp add: match_stage_def orders_of_def)

lemma aggregate_inv:
  "distinct (map row_id (aggregate s docs)) \<and>
   set (map row_id (aggregate s docs)) = supermarket ` set (match_stage s docs) \<and>
   (\<forall>r\<in>set (aggregate s docs). row_ok (match_stage s docs) r) \<and>
   sorted_wrt (\<lambda>a b. totalRevenue a \<ge> totalRevenue b) (aggregate s docs)"
  using group_stage_inv[of "match_stage s docs"]
  by (simp add: aggregate_def sort_stage_set sort_stage_distinct_ids sort_stage_sorted)

lemma getSupplierBuyers_rows:
  "map supermarketId (getSupplierBuyers orders dir s) = map row_id (aggregate s orders)"
  by (simp add: getSupplierBuyers_def Let_def comp_def)

subsection \<open>The example response\<close>

lemma example_buyers:
  "getSupplierBuyers example_orders example_directory ''SUP1'' =
    [\<lparr>supermarketId = ''SM1'', buyer_name = JStr ''Fresh Mart'',
        buyer_contactEmail = JStr ''shop@fresh.example'', buyer_address = JStr ''1 Main St'',
        buyer_totalOrders = 2, buyer_totalRevenue = 150, buyer_lastOrderDate = 3000\<rparr>,
     \<lparr>supermarketId = ''SM2'', buyer_name = JStr ''Unknown'',
        buyer_contactEmail = JStr [], buyer_address = JStr [],
        buyer_totalOrders = 1, buyer_totalRevenue = 75, buyer_lastOrderDate = 2000\<rparr>]"
  by (simp add: getSupplierBuyers_def aggregate_def sort_stage_def group_stage_def
      match_stage_def example_orders_def example_directory_def find_in_def markets_map_def
      sm_field_def js_or_def Let_def)

subsection \<open>The join with the directory\<close>

lemma markets_map_None:
  "k \<notin> sm_id ` set dir \<Longrightarrow> markets_map (find_in ids dir) k = None"
  by (force simp: markets_map_def find_in_def map_of_eq_None_iff)

lemma getSupplierBuyers_stats:
  "map buyer_stats (getSupplierBuyers orders dir s) =
   map (\<lambda>r. (row_id r, totalOrders r, totalRevenue r, lastOrderDate r)) (aggregate s orders)"
  by (simp add: getSupplierBuyers_def Let_def comp_def buyer_stats_def)

lemma missing_record_fields:
  "b \<in> set (getSupplierBuyers orders dir s) \<Longrightarrow> supermarketId b \<notin> sm_id ` set dir \<Longrightarrow>
   buyer_name b = JStr ''Unknown'' \<and> buyer_contactEmail b = JStr [] \<and>
   buyer_address b = JStr []"
  by (auto simp: getSupplierBuyers_def Let_def markets_map_None sm_field_def js_or_def)

subsection \<open>The example items\<close>

lemma with_A_eval:
  "0 < q \<Longrightarrow> with_A q =
     initial\<lparr>toast := AddedToCart, cart := [\<lparr>productOf = item_A, qty = Finite q\<rparr>]\<rparr>"
  by (simp add: with_A_def run_def addToCart_def updateQty_def initial_def item_A_def
      getProductSupplierId_def js_or_def cartSupplierId_def same_id_def js_max_def Let_def)

lemma supplier_A: "getProductSupplierId item_A = JStr ''S1''"
  by (simp add: item_A_def getProductSupplierId_def js_or_def)

lemma supplier_B: "getProductSupplierId item_B = JStr ''S2''"
  by (simp add: item_B_def getProductSupplierId_def js_or_def)

lemma supplier_C: "getProductSupplierId item_C = JNull"
  by (simp add: item_C_def getProductSupplierId_def js_or_def)

lemma id_A: "opt_get item_A ''_id'' = JStr ''A''"
  by (simp add: item_A_def)

lemma id_B: "opt_get item_B ''_id'' = JStr ''B''"
  by (simp add: item_B_def)

lemma id_C: "opt_get item_C ''_id'' = JStr ''C''"
  by (simp add: item_C_def)

lemma reachable_with_A: "reachable no_strings (with_A q)"
  unfolding with_A_def by (rule reachable_run) (rule reach_initial)

subsection \<open>One supplier per cart\<close>

lemma one_supplier_subset:
  assumes "one_supplier c" and "supplierOf ` set c' \<subseteq> supplierOf ` set c"
  shows "one_supplier c'"
  unfolding one_supplier_def
proof (intro ballI conjI)
  fix x assume "x \<in> set c'"
  with assms(2) obtain x' where x': "x' \<in> set c" "supplierOf x = supplierOf x'" by auto
  with assms(1) show "truthy (supplierOf x)" by (simp add: one_supplier_def)
  fix y assume "y \<in> set c'"
  with assms(2) obtain y' where y': "y' \<in> set c" "supplierOf y = supplierOf y'" by auto
  with assms(1) x' show "strict_eq (supplierOf x) (supplierOf y)" by (simp add: one_supplier_def)
qed

lemma cartSupplierId_hd: "c \<noteq> [] \<Longrightarrow> cartSupplierId c = supplierOf (hd c)"
  by (cases c) (simp_all add: cartSupplierId_def supplierOf_def)

lemma one_supplier_head:
  assumes o: "one_supplier c" and x: "x \<in> set c"
  shows "truthy (cartSupplierId c) \<and> strict_eq (supplierOf x) (cartSupplierId c)"
proof -
  from x have ne: "c \<noteq> []" by auto
  then have h: "hd c \<in> set c" by simp
  from o h x show ?thesis
    by (simp add: cartSupplierId_hd[OF ne] one_supplier_def)
qed

lemma map_qty_supplier:
  "supplierOf ` set (map (\<lambda>x. if P x then x\<lparr>qty := f x\<rparr> else x) c) = supplierOf ` set c"
proof -
  have "map supplierOf (map (\<lambda>x. if P x then x\<lparr>qty := f x\<rparr> else x) c) = map supplierOf c"
    by (induction c) (simp_all add: supplierOf_def)
  then have "set (map supplierOf (map (\<lambda>x. if P x then x\<lparr>qty := f x\<rparr> else x) c)) =
      set (map supplierOf c)" by simp
  then show ?thesis by (simp only: set_map)
qed

lemma filter_map_one_supplier:
  assumes o: "one_supplier c"
  shows "one_supplier (filter Q (map (\<lambda>x. if P x then x\<lparr>qty := f x\<rparr> else x) c))"
proof -
  let ?m = "map (\<lambda>x. if P x then x\<lparr>qty := f x\<rparr> else x) c"
  have "supplierOf ` set (filter Q ?m) \<subseteq> supplierOf ` set ?m" by auto
  also have "\<dots> = supplierOf ` set c" by (rule map_qty_supplier)
  finally show ?thesis by (rule one_supplier_subset[OF o])
qed

lemma updateQty_one_supplier:
  "one_supplier (cart st) \<Longrightarrow> one_supplier (cart (updateQty s2n i q st))"
  by (simp add: updateQty_def Let_def filter_map_one_supplier)

lemma incQty_one_supplier: "one_supplier (cart st) \<Longrightarrow> one_supplier (cart (incQty i st))"
  using filter_map_one_supplier[of "cart st" "\<lambda>x. True"] by (simp add: incQty_def)

lemma decQty_one_supplier: "one_supplier (cart st) \<Longrightarrow> one_supplier (cart (decQty i st))"
  by (simp add: decQty_def filter_map_one_supplier)

lemma one_supplier_snoc:
  assumes o: "one_supplier c" and t: "truthy (getProductSupplierId p)"
    and e: "truthy (cartSupplierId c) \<longrightarrow> strict_eq (getProductSupplierId p) (cartSupplierId c)"
  shows "one_supplier (c @ [\<lparr>productOf = p, qty = n\<rparr>])"
proof -
  let ?n = "\<lparr>productOf = p, qty = n\<rparr>"
  have sn: "supplierOf ?n = getProductSupplierId p" by (simp add: supplierOf_def)
  have old: "strict_eq (supplierOf z) (getProductSupplierId p)" if z: "z \<in> set c" for z
  proof -
    from one_supplier_head[OF o z] e
    have "strict_eq (supplierOf z) (cartSupplierId c)"
      "strict_eq (getProductSupplierId p) (cartSupplierId c)" by auto
    from this(1) strict_eq_sym[OF this(2)] show ?thesis by (rule strict_eq_trans)
  qed
  show ?thesis
    unfolding one_supplier_def
  proof (intro ballI conjI)
    fix x assume x: "x \<in> set (c @ [?n])"
    then have x': "x \<in> set c \<or> x = ?n" by auto
    with o t show "truthy (supplierOf x)" by (auto simp: one_supplier_def sn)
    fix y assume y: "y \<in> set (c @ [?n])"
    then have y': "y \<in> set c \<or> y = ?n" by auto
    from x' y' consider "x \<in> set c" "y \<in> set c" | "x \<in> set c" "y = ?n"
      | "x = ?n" "y \<in> set c" | "x = ?n" "y = ?n" by blast
    then show "strict_eq (supplierOf x) (supplierOf y)"
    proof cases
      case 1
      with o show ?thesis by (simp add: one_supplier_def)
    next
      case 2
      with old[of x] show ?thesis by (simp add: sn)
    next
      case 3
      with strict_eq_sym[OF old[of y]] show ?thesis by (simp add: sn)
    next
      case 4
      with strict_eq_refl[OF t] show ?thesis by (simp add: sn)
    qed
  qed
qed

lemma addToCart_one_supplier:
  assumes o: "one_supplier (cart st)"
  shows "one_supplier (cart (addToCart p st))"
proof (cases "truthy (getProductSupplierId p)")
  case False
  with o show ?thesis by (simp add: addToCart_def Let_def)
next
  case t: True
  show ?thesis
  proof (cases "truthy (cartSupplierId (cart st)) \<and>
              \<not> strict_eq (getProductSupplierId p) (cartSupplierId (cart st))")
    case True
    with o t show ?thesis by (simp add: addToCart_def Let_def)
  next
    case acc: False
    show ?thesis
    proof (cases "findIndex (same_id (opt_get p ''_id'')) (cart st)")
      case (Some i)
      let ?c = "(cart st)[i := (cart st ! i)
          \<lparr>qty := js_min (Finite 999) (num_add (qty (cart st ! i)) (Finite 1))\<rparr>]"
      from findIndex_Some[OF Some] have i: "i < length (cart st)" by simp
      have "map supplierOf ?c = (map supplierOf (cart st))[i := supplierOf (cart st ! i)]"
        by (simp add: map_update supplierOf_def)
      also have "\<dots> = map supplierOf (cart st)" using i by (simp add: list_update_same_conv)
      finally have "set (map supplierOf ?c) = set (map supplierOf (cart st))" by simp
      then have "supplierOf ` set ?c \<subseteq> supplierOf ` set (cart st)" by (simp only: set_map)
      from one_supplier_subset[OF o this] have "one_supplier ?c" .
      with t acc Some show ?thesis by (auto simp: addToCart_def Let_def)
    next
      case None
      from acc have "truthy (cartSupplierId (cart st)) \<longrightarrow>
          strict_eq (getProductSupplierId p) (cartSupplierId (cart st))" by blast
      from one_supplier_snoc[OF o t this]
      have "one_supplier (cart st @ [\<lparr>productOf = p, qty = Finite 1\<rparr>])" .
      with t acc None show ?thesis by (auto simp: addToCart_def Let_def)
    qed
  qed
qed

lemma reachable_one_supplier: "reachable s2n st \<Longrightarrow> one_supplier (cart st)"
proof (induction rule: reachable.induct)
  case reach_initial
  show ?case by (simp add: initial_def one_supplier_def)
next
  case (reach_step st e)
  note IH = reach_step.IH
  have "one_supplier []" by (simp add: one_supplier_def)
  with step_cart[of s2n e st] addToCart_one_supplier[OF IH] updateQty_one_supplier[OF IH]
    incQty_one_supplier[OF IH] decQty_one_supplier[OF IH] IH
  show ?case by (elim disjE exE) simp_all
qed

subsection \<open>Lines that a handler leaves alone\<close>

lemma filter_positive: "\<forall>x\<in>set c. positive_qty x \<Longrightarrow> filter (\<lambda>x. num_gt (qty x) (Finite 0)) c = c"
  by (simp add: positive_num_gt)

lemma map_absent: "\<forall>x\<in>set c. \<not> P x \<Longrightarrow> map (\<lambda>x. if P x then f x else x) c = c"
  by (induction c) simp_all

lemma whole_step: "q \<in> \<int> \<Longrightarrow> q < 999 \<Longrightarrow> q + 1 \<le> (999::rat)"
  by (auto elim!: Ints_cases)

lemma inc_dec_line:
  assumes "positive_qty x" and "same_id i x \<longrightarrow> whole_below_999 (qty x)"
  shows "(\<lambda>x. if same_id i x then x\<lparr>qty := js_max (Finite 0) (num_sub (qty x) (Finite 1))\<rparr> else x)
           ((\<lambda>x. if same_id i x then x\<lparr>qty := js_min (Finite 999) (num_add (qty x) (Finite 1))\<rparr> else x) x)
         = x"
proof (cases "same_id i x")
  case False
  then show ?thesis by simp
next
  case True
  from assms(1) obtain q where q: "qty x = Finite q" "0 < q" by (auto simp: positive_qty_iff)
  with True assms(2) have w: "q \<in> \<int>" "q < 999" by (simp_all add: whole_below_999_def)
  from whole_step[OF w] have "min 999 (q + 1) = q + 1" by simp
  with q True show ?thesis
    by (simp add: same_id_def js_min_Finite js_max_Finite num_sub_def)
qed

lemma inc_dec_line_999:
  assumes "same_id i x \<longrightarrow> qty x = Finite 999"
  shows "(\<lambda>x. if same_id i x then x\<lparr>qty := js_max (Finite 0) (num_sub (qty x) (Finite 1))\<rparr> else x)
           ((\<lambda>x. if same_id i x then x\<lparr>qty := js_min (Finite 999) (num_add (qty x) (Finite 1))\<rparr> else x) x)
         = (if same_id i x then x\<lparr>qty := Finite 998\<rparr> else x)"
  using assms by (simp add: same_id_def js_min_Finite js_max_Finite num_sub_def)

subsection \<open>The payment method in the state\<close>

lemma addToCart_payment: "paymentMethod (addToCart p st) = paymentMethod st"
  by (simp add: addToCart_def Let_def)

lemma loadOrders_payment: "paymentMethod (loadOrders out st) = paymentMethod st"
  by (simp add: loadOrders_def split: fetch_outcome.splits)

lemma placeOrder_payment:
  "paymentMethod (fst (placeOrder s2n extra post reload st)) = paymentMethod st \<or>
   paymentMethod (fst (placeOrder s2n extra post reload st)) = ''cash''"
  by (simp add: placeOrder_def Let_def loadOrders_payment clearCart_def
      split: option.splits fetch_outcome.splits)

lemma confirmOrder_payment:
  "paymentMethod (fst (confirmOrder s2n post reload st)) = paymentMethod st \<or>
   paymentMethod (fst (confirmOrder s2n post reload st)) = ''cash''"
  using placeOrder_payment by (auto simp: confirmOrder_def)

lemma step_payment:
  "paymentMethod (step s2n e st) = paymentMethod st \<or>
   paymentMethod (step s2n e st) \<in> {''cash'', ''bank'', ''card''}"
proof (cases e)
  case (ConfirmOrder post reload)
  with confirmOrder_payment[of s2n post reload st] show ?thesis by auto
next
  case (SetPaymentMethod v)
  then show ?thesis by (cases v) simp_all
next
  case (AddToCart p)
  then show ?thesis by (simp add: addToCart_payment)
next
  case (AddAndCart p)
  then show ?thesis by (simp add: addToCart_payment)
next
  case (UpdateQty i q)
  then show ?thesis by (simp add: updateQty_def Let_def)
next
  case (IncQty i)
  then show ?thesis by (simp add: incQty_def)
next
  case (DecQty i)
  then show ?thesis by (simp add: decQty_def)
next
  case ClearCart
  then show ?thesis by (simp add: clearCart_def)
next
  case (LoadOrders out)
  then show ?thesis by (simp add: loadOrders_payment)
qed simp_all

lemma reachable_payment:
  "reachable s2n st \<Longrightarrow> paymentMethod st \<in> {''cash'', ''bank'', ''card''}"
proof (induction rule: reachable.induct)
  case reach_initial
  show ?case by (simp add: initial_def)
next
  case (reach_step st e)
  with step_payment[of s2n e st] show ?case by auto
qed

lemma placeOrder_body:
  "snd (placeOrder s2n extra post reload st) = Some body \<Longrightarrow>
   payment_method body = js_or (extra_payment_method extra) (JStr ''cash'')"
  by (auto simp: placeOrder_def Let_def split: if_splits option.splits fetch_outcome.splits)

subsection \<open>Evaluating the example checkouts\<close>

lemma checkout_A_eval:
  "checkout_A = initial\<lparr>toast := AddedToCart, cart := [\<lparr>productOf = item_A, qty = Finite 1\<rparr>],
     deliveryAddress := ''12 Main St'', paymentMethod := ''card''\<rparr>"
  by (simp add: checkout_A_def run_def addToCart_def initial_def supplier_A cartSupplierId_def
      Let_def)

lemma reachable_checkout_A: "reachable no_strings checkout_A"
  unfolding checkout_A_def by (rule reachable_run) (rule reach_initial)

lemma confirm_checkout_A:
  "snd (confirmOrder no_strings rejected accepted checkout_A) =
     Some \<lparr>supplier_id = JStr ''S1'',
        items = [\<lparr>product_id = JStr ''A'', item_qty = Finite 1, item_price = JNum (Finite 10)\<rparr>],
        delivery_address = JStr ''12 Main St'', delivery_date = JStr [],
        payment_method = JStr ''card'', order_note = JStr [], total_amount = Finite 10\<rparr>"
  by (simp add: confirmOrder_def placeOrder_def checkout_A_eval initial_def trim_def is_ws_def
      cartSupplierId_def getProductSupplierId_def item_A_def cartTotal_def lineTotal_def
      js_or_def rejected_def Let_def)

lemma place_blank_A:
  "snd (placeOrder no_strings blank_details accepted accepted (with_A 1)) =
     Some \<lparr>supplier_id = JStr ''S1'',
        items = [\<lparr>product_id = JStr ''A'', item_qty = Finite 1, item_price = JNum (Finite 10)\<rparr>],
        delivery_address = JStr ''   '', delivery_date = JStr [],
        payment_method = JStr ''cash'', order_note = JStr [], total_amount = Finite 10\<rparr>"
  by (simp add: placeOrder_def with_A_eval initial_def blank_details_def accepted_def
      cartSupplierId_def getProductSupplierId_def item_A_def cartTotal_def lineTotal_def
      js_or_def Let_def)

lemma checkout_empty_eval: "checkout_empty = initial\<lparr>deliveryAddress := ''12 Main St''\<rparr>"
  by (simp add: checkout_empty_def run_def)

subsection \<open>Validation of a submission\<close>

lemma trim_empty_iff: "trim s = [] \<longleftrightarrow> (\<forall>c\<in>set s. is_ws c)"
proof -
  have "trim s = [] \<longleftrightarrow> (\<forall>c\<in>set (dropWhile is_ws s). is_ws c)"
    by (simp add: trim_def dropWhile_eq_Nil_conv)
  also have "\<dots> \<longleftrightarrow> dropWhile is_ws s = []"
  proof
    assume a: "\<forall>c\<in>set (dropWhile is_ws s). is_ws c"
    show "dropWhile is_ws s = []"
    proof (rule ccontr)
      assume n: "dropWhile is_ws s \<noteq> []"
      then have "\<not> is_ws (hd (dropWhile is_ws s))" by (rule hd_dropWhile)
      moreover from n have "hd (dropWhile is_ws s) \<in> set (dropWhile is_ws s)" by simp
      ultimately show False using a by blast
    qed
  next
    assume e: "dropWhile is_ws s = []"
    show "\<forall>c\<in>set (dropWhile is_ws s). is_ws c" unfolding e by simp
  qed
  also have "\<dots> \<longleftrightarrow> (\<forall>c\<in>set s. is_ws c)" by (simp add: dropWhile_eq_Nil_conv)
  finally show ?thesis .
qed

lemma placeOrder_rejected_cart:
  "\<forall>m. post \<noteq> Responded True m \<Longrightarrow> cart (fst (placeOrder s2n extra post reload st)) = cart st"
  by (cases post) (auto simp: placeOrder_def Let_def split: option.splits)

lemma confirmOrder_rejected_cart:
  "\<forall>m. post \<noteq> Responded True m \<Longrightarrow> cart (fst (confirmOrder s2n post reload st)) = cart st"
  by (simp add: confirmOrder_def placeOrder_rejected_cart)

subsection \<open>The total as a sum\<close>



lemma filter_zeroed:
  "\<forall>x\<in>set c. positive_qty x \<Longrightarrow>
   filter (\<lambda>x. num_gt (qty x) (Finite 0))
     (map (\<lambda>x. if same_id i x then x\<lparr>qty := Finite 0\<rparr> else x) c) =
   filter (\<lambda>x. \<not> same_id i x) c"
  by (induction c) (auto simp: positive_num_gt)

section \<open>The claims\<close>

text \<open>
  C2. For every collection of orders and every supplier, \<open>getSupplierBuyers\<close> returns one
  element per buyer that has an order with that supplier and no other element; the element
  of a buyer carries the number of the supplier's orders from that buyer, the sum of their
  \<open>totalAmount\<close> and the greatest of their \<open>createdAt\<close>; and the list is in descending
  order of the summed revenue.
\<close>

theorem getSupplierBuyers_aggregation:
  "distinct (map supermarketId (getSupplierBuyers orders dir s)) \<and>
   set (map supermarketId (getSupplierBuyers orders dir s)) =
     supermarket ` {d \<in> set orders. supplier d = s} \<and>
   (\<forall>b\<in>set (getSupplierBuyers orders dir s).
      orders_of s (supermarketId b) orders \<noteq> [] \<and>
      buyer_totalOrders b = length (orders_of s (supermarketId b) orders) \<and>
      buyer_totalRevenue b = sum_list (map totalAmount (orders_of s (supermarketId b) orders)) \<and>
      buyer_lastOrderDate b = Max (createdAt ` set (orders_of s (supermarketId b) orders))) \<and>
   sorted_wrt (\<lambda>a b. buyer_totalRevenue a \<ge> buyer_totalRevenue b)
     (getSupplierBuyers orders dir s)"
proof (intro conjI ballI)
  note inv = aggregate_inv[of s orders]
  show "distinct (map supermarketId (getSupplierBuyers orders dir s))"
    using inv by (simp add: getSupplierBuyers_rows)
  show "set (map supermarketId (getSupplierBuyers orders dir s)) =
     supermarket ` {d \<in> set orders. supplier d = s}"
    using inv by (simp add: getSupplierBuyers_rows match_stage_def)
  show "sorted_wrt (\<lambda>a b. buyer_totalRevenue a \<ge> buyer_totalRevenue b)
     (getSupplierBuyers orders dir s)"
    using inv by (simp add: getSupplierBuyers_def Let_def sorted_wrt_map)
  fix b assume "b \<in> set (getSupplierBuyers orders dir s)"
  then obtain r where r: "r \<in> set (aggregate s orders)" "supermarketId b = row_id r"
    "buyer_totalOrders b = totalOrders r" "buyer_totalRevenue b = totalRevenue r"
    "buyer_lastOrderDate b = lastOrderDate r"
    by (auto simp: getSupplierBuyers_def Let_def)
  with inv have ok: "row_ok (match_stage s orders) r" by simp
  from ok r show "orders_of s (supermarketId b) orders \<noteq> []"
    by (simp add: row_ok_def Let_def filter_orders_of)
  from ok r show "buyer_totalOrders b = length (orders_of s (supermarketId b) orders)"
    by (simp add: row_ok_def Let_def filter_orders_of)
  from ok r show
    "buyer_totalRevenue b = sum_list (map totalAmount (orders_of s (supermarketId b) orders))"
    by (simp add: row_ok_def Let_def filter_orders_of)
  from ok r show
    "buyer_lastOrderDate b = Max (createdAt ` set (orders_of s (supermarketId b) orders))"
    by (simp add: row_ok_def Let_def filter_orders_of)
qed

theorem getSupplierBuyers_aggregation_witness:
  "map buyer_stats (getSupplierBuyers example_orders example_directory ''SUP1'') =
     [(''SM1'', 2, 150, 3000), (''SM2'', 1, 75, 2000)] \<and>
   orders_of ''SUP1'' ''SM1'' example_orders =
     [\<lparr>supplier = ''SUP1'', supermarket = ''SM1'', totalAmount = 100, createdAt = 1000\<rparr>,
      \<lparr>supplier = ''SUP1'', supermarket = ''SM1'', totalAmount = 50, createdAt = 3000\<rparr>] \<and>
   (let b = hd (getSupplierBuyers example_orders example_directory ''SUP1'') in
      b \<in> set (getSupplierBuyers example_orders example_directory ''SUP1'') \<and>
      buyer_totalOrders b = length (orders_of ''SUP1'' (supermarketId b) example_orders) \<and>
      buyer_totalRevenue b =
        sum_list (map totalAmount (orders_of ''SUP1'' (supermarketId b) example_orders)) \<and>
      buyer_lastOrderDate b =
        Max (createdAt ` set (orders_of ''SUP1'' (supermarketId b) example_orders)))"
proof -
  let ?rs = "getSupplierBuyers example_orders example_directory ''SUP1''"
  have mem: "hd ?rs \<in> set ?rs" by (simp add: example_buyers)
  from getSupplierBuyers_aggregation[of example_orders example_directory "''SUP1''"] mem
  have "buyer_totalOrders (hd ?rs) =
          length (orders_of ''SUP1'' (supermarketId (hd ?rs)) example_orders) \<and>
      buyer_totalRevenue (hd ?rs) =
        sum_list (map totalAmount (orders_of ''SUP1'' (supermarketId (hd ?rs)) example_orders)) \<and>
      buyer_lastOrderDate (hd ?rs) =
        Max (createdAt ` set (orders_of ''SUP1'' (supermarketId (hd ?rs)) example_orders))"
    by blast
  moreover have "map buyer_stats ?rs = [(''SM1'', 2, 150, 3000), (''SM2'', 1, 75, 2000)]"
    by (simp add: example_buyers buyer_stats_def)
  moreover have "orders_of ''SUP1'' ''SM1'' example_orders =
     [\<lparr>supplier = ''SUP1'', supermarket = ''SM1'', totalAmount = 100, createdAt = 1000\<rparr>,
      \<lparr>supplier = ''SUP1'', supermarket = ''SM1'', totalAmount = 50, createdAt = 3000\<rparr>]"
    by (simp add: orders_of_def example_orders_def)
  ultimately show ?thesis using mem by (simp add: Let_def)
qed

text \<open>
  C9. An element of the response whose buyer has no record in the directory carries the
  name \<open>Unknown\<close> and an empty contact email and address. The buyers listed, their order,
  and the count, revenue and last order date of each are the same whatever the directory
  holds: a missing record removes no element and changes no computed figure.
\<close>

theorem getSupplierBuyers_missing_record:
  "(\<forall>b\<in>set (getSupplierBuyers orders dir s).
      supermarketId b \<notin> sm_id ` set dir \<longrightarrow>
      buyer_name b = JStr ''Unknown'' \<and> buyer_contactEmail b = JStr [] \<and>
      buyer_address b = JStr []) \<and>
   map buyer_stats (getSupplierBuyers orders dir s) =
     map buyer_stats (getSupplierBuyers orders dir' s)"
proof (intro conjI ballI impI)
  fix b
  assume b: "b \<in> set (getSupplierBuyers orders dir s)"
    and miss: "supermarketId b \<notin> sm_id ` set dir"
  from missing_record_fields[OF b miss]
  show "buyer_name b = JStr ''Unknown''" "buyer_contactEmail b = JStr []"
    "buyer_address b = JStr []" by simp_all
next
  show "map buyer_stats (getSupplierBuyers orders dir s) =
     map buyer_stats (getSupplierBuyers orders dir' s)"
    by (simp only: getSupplierBuyers_stats)
qed

theorem getSupplierBuyers_missing_record_witness:
  "(let b = getSupplierBuyers example_orders example_directory ''SUP1'' ! 1 in
      b \<in> set (getSupplierBuyers example_orders example_directory ''SUP1'') \<and>
      supermarketId b = ''SM2'' \<and> ''SM2'' \<notin> sm_id ` set example_directory \<and>
      buyer_name b = JStr ''Unknown'' \<and> buyer_contactEmail b = JStr [] \<and>
      buyer_address b = JStr [] \<and> buyer_stats b = (''SM2'', 1, 75, 2000)) \<and>
   map buyer_stats (getSupplierBuyers example_orders example_directory ''SUP1'') =
     map buyer_stats (getSupplierBuyers example_orders [] ''SUP1'')"
proof -
  let ?rs = "getSupplierBuyers example_orders example_directory ''SUP1''"
  have mem: "?rs ! 1 \<in> set ?rs" by (simp add: example_buyers)
  have "supermarketId (?rs ! 1) = ''SM2''" by (simp add: example_buyers)
  then have miss: "supermarketId (?rs ! 1) \<notin> sm_id ` set example_directory"
    by (simp add: example_directory_def)
  from getSupplierBuyers_missing_record[of example_orders example_directory "''SUP1''" "[]"]
    mem miss
  have "buyer_name (?rs ! 1) = JStr ''Unknown'' \<and> buyer_contactEmail (?rs ! 1) = JStr [] \<and>
      buyer_address (?rs ! 1) = JStr [] \<and>
      map buyer_stats ?rs = map buyer_stats (getSupplierBuyers example_orders [] ''SUP1'')"
    by blast
  moreover have "supermarketId (?rs ! 1) = ''SM2'' \<and> buyer_stats (?rs ! 1) = (''SM2'', 1, 75, 2000)"
    by (simp add: example_buyers buyer_stats_def)
  ultimately show ?thesis using mem miss by (simp add: Let_def)
qed



text \<open>
  C1. In every state the dashboard reaches: adding an item whose supplier identifier
  differs from that of the first line of a non-empty cart is refused with the
  one-supplier message, and nothing but the message changes; and every line of the cart
  has a supplier identifier, equal to that of the first line and to that of every other
  line.
\<close>

theorem single_supplier_cart:
  assumes "reachable s2n st"
  shows "(cart st \<noteq> [] \<and> truthy (getProductSupplierId p) \<and>
          \<not> strict_eq (getProductSupplierId p) (cartSupplierId (cart st)) \<longrightarrow>
          addToCart p st =
            st\<lparr>err := ''Cart can contain products from ONE supplier only. Clear cart to switch supplier.''\<rparr>)
       \<and> (\<forall>x\<in>set (cart st).
            truthy (supplierOf x) \<and> strict_eq (supplierOf x) (cartSupplierId (cart st)) \<and>
            (\<forall>y\<in>set (cart st). strict_eq (supplierOf x) (supplierOf y)))"
proof (intro conjI impI ballI)
  from assms have o: "one_supplier (cart st)" by (rule reachable_one_supplier)
  {
    assume a: "cart st \<noteq> [] \<and> truthy (getProductSupplierId p) \<and>
          \<not> strict_eq (getProductSupplierId p) (cartSupplierId (cart st))"
    then have "hd (cart st) \<in> set (cart st)" by simp
    from one_supplier_head[OF o this] have "truthy (cartSupplierId (cart st))" by simp
    with a show "addToCart p st =
            st\<lparr>err := ''Cart can contain products from ONE supplier only. Clear cart to switch supplier.''\<rparr>"
      by (simp add: addToCart_def Let_def)
  }
  fix x assume x: "x \<in> set (cart st)"
  from o x show "truthy (supplierOf x)" by (simp add: one_supplier_def)
  from one_supplier_head[OF o x] show "strict_eq (supplierOf x) (cartSupplierId (cart st))"
    by simp
  fix y assume "y \<in> set (cart st)"
  with o x show "strict_eq (supplierOf x) (supplierOf y)" by (simp add: one_supplier_def)
qed

theorem single_supplier_cart_witness:
  "reachable no_strings (with_A 1) \<and> cart (with_A 1) \<noteq> [] \<and>
   truthy (getProductSupplierId item_B) \<and>
   \<not> strict_eq (getProductSupplierId item_B) (cartSupplierId (cart (with_A 1))) \<and>
   addToCart item_B (with_A 1) =
     (with_A 1)\<lparr>err := ''Cart can contain products from ONE supplier only. Clear cart to switch supplier.''\<rparr> \<and>
   cart (addToCart item_B (with_A 1)) = [\<lparr>productOf = item_A, qty = Finite 1\<rparr>] \<and>
   cartTotal no_strings (cart (addToCart item_B (with_A 1))) = Finite 10 \<and>
   (let x = hd (cart (with_A 1)) in
      x \<in> set (cart (with_A 1)) \<and> supplierOf x = JStr ''S1'' \<and> truthy (supplierOf x) \<and>
      strict_eq (supplierOf x) (cartSupplierId (cart (with_A 1))))"
proof -
  have c: "cart (with_A 1) = [\<lparr>productOf = item_A, qty = Finite 1\<rparr>]"
    by (simp add: with_A_eval)
  have h1: "reachable no_strings (with_A 1)" by (rule reachable_with_A)
  have h2: "cart (with_A 1) \<noteq> []" by (simp add: c)
  have h3: "truthy (getProductSupplierId item_B)" by (simp add: supplier_B)
  have h4: "\<not> strict_eq (getProductSupplierId item_B) (cartSupplierId (cart (with_A 1)))"
    by (simp add: c cartSupplierId_def supplier_A supplier_B)
  have h5: "hd (cart (with_A 1)) \<in> set (cart (with_A 1))" by (simp add: c)
  note inst = single_supplier_cart[OF h1, of item_B]
  from inst h2 h3 h4 have r1: "addToCart item_B (with_A 1) =
     (with_A 1)\<lparr>err := ''Cart can contain products from ONE supplier only. Clear cart to switch supplier.''\<rparr>"
    by blast
  from inst h5 have r2: "truthy (supplierOf (hd (cart (with_A 1)))) \<and>
      strict_eq (supplierOf (hd (cart (with_A 1)))) (cartSupplierId (cart (with_A 1)))"
    by blast
  have r3: "cart (addToCart item_B (with_A 1)) = [\<lparr>productOf = item_A, qty = Finite 1\<rparr>]"
    by (simp add: r1 c)
  have r4: "cartTotal no_strings [\<lparr>productOf = item_A, qty = Finite 1\<rparr>] = Finite 10"
    by (simp add: cartTotal_def lineTotal_def item_A_def js_or_def)
  have r5: "supplierOf (hd (cart (with_A 1))) = JStr ''S1''"
    by (simp add: c supplierOf_def supplier_A)
  from h1 h2 h3 h4 h5 r1 r2 r3 r4 r5 show ?thesis by (simp add: Let_def)
qed

text \<open>
  C10. In every state the dashboard reaches, for an identifier that no line of the cart
  carries, \<open>incQty\<close>, \<open>decQty\<close> and \<open>updateQty\<close> (with any quantity) leave the whole state
  as it is, so no line is created; and \<open>incQty\<close> leaves the state as it is when the
  lines with the identifier are at quantity 999.
\<close>

theorem absent_line_noop:
  assumes "reachable s2n st"
  shows "((\<forall>x\<in>set (cart st). \<not> same_id i x) \<longrightarrow>
            incQty i st = st \<and> decQty i st = st \<and> updateQty s2n i q st = st)
       \<and> ((\<forall>x\<in>set (cart st). same_id i x \<longrightarrow> qty x = Finite 999) \<longrightarrow> incQty i st = st)"
proof (intro conjI impI)
  from assms have pos: "\<forall>x\<in>set (cart st). positive_qty x" by (rule reachable_positive)
  {
    assume abs: "\<forall>x\<in>set (cart st). \<not> same_id i x"
    show "incQty i st = st" by (simp add: incQty_def map_absent[OF abs])
    show "decQty i st = st" by (simp add: decQty_def map_absent[OF abs] filter_positive[OF pos])
    show "updateQty s2n i q st = st"
      by (simp add: updateQty_def Let_def map_absent[OF abs] filter_positive[OF pos])
  }
  assume cap: "\<forall>x\<in>set (cart st). same_id i x \<longrightarrow> qty x = Finite 999"
  have "map (\<lambda>x. if same_id i x
                then x\<lparr>qty := js_min (Finite 999) (num_add (qty x) (Finite 1))\<rparr> else x) (cart st)
        = map (\<lambda>x. x) (cart st)"
    using cap by (intro map_cong) (auto simp: js_min_Finite)
  then show "incQty i st = st" by (simp add: incQty_def)
qed

theorem absent_line_noop_witness:
  "reachable no_strings (with_A 999) \<and>
   cart (with_A 999) = [\<lparr>productOf = item_A, qty = Finite 999\<rparr>] \<and>
   (\<exists>x\<in>set (cart (with_A 999)). \<not> same_id (JStr ''B'') x) \<and>
   incQty (JStr ''B'') (with_A 999) = with_A 999 \<and>
   decQty (JStr ''B'') (with_A 999) = with_A 999 \<and>
   updateQty no_strings (JStr ''B'') (JNum (Finite 7)) (with_A 999) = with_A 999 \<and>
   (\<exists>x\<in>set (cart (with_A 999)). same_id (JStr ''A'') x \<and> qty x = Finite 999) \<and>
   incQty (JStr ''A'') (with_A 999) = with_A 999"
proof -
  have c: "cart (with_A 999) = [\<lparr>productOf = item_A, qty = Finite 999\<rparr>]"
    by (simp add: with_A_eval)
  have h1: "reachable no_strings (with_A 999)" by (rule reachable_with_A)
  have h2: "\<forall>x\<in>set (cart (with_A 999)). \<not> same_id (JStr ''B'') x"
    by (simp add: c same_id_def id_A)
  have h3: "\<forall>x\<in>set (cart (with_A 999)). same_id (JStr ''A'') x \<longrightarrow> qty x = Finite 999"
    by (simp add: c)
  have h4: "\<exists>x\<in>set (cart (with_A 999)). \<not> same_id (JStr ''B'') x"
    "\<exists>x\<in>set (cart (with_A 999)). same_id (JStr ''A'') x \<and> qty x = Finite 999"
    by (simp_all add: c same_id_def id_A)
  from absent_line_noop[OF h1, of "JStr ''B''" "JNum (Finite 7)"] h2
  have r1: "incQty (JStr ''B'') (with_A 999) = with_A 999 \<and>
   decQty (JStr ''B'') (with_A 999) = with_A 999 \<and>
   updateQty no_strings (JStr ''B'') (JNum (Finite 7)) (with_A 999) = with_A 999" by blast
  from absent_line_noop[OF h1, of "JStr ''A''"] h3
  have r2: "incQty (JStr ''A'') (with_A 999) = with_A 999" by blast
  from c h1 h4 r1 r2 show ?thesis by blast
qed

text \<open>
  C7. As stated the claim fails: a line at quantity 998.5, which \<open>updateQty\<close> accepts, is
  below 999, goes to 999 on increment and to 998 on decrement. Amended: in every state the
  dashboard reaches, for an identifier whose lines have a whole-number quantity below 999
  (or that has no line), \<open>incQty\<close> followed by \<open>decQty\<close> gives back the state exactly;
  and when the lines with the identifier are at 999, it leaves them at 998 and changes
  nothing else.
\<close>

theorem inc_dec_roundtrip:
  assumes "reachable s2n st"
  shows "((\<forall>x\<in>set (cart st). same_id i x \<longrightarrow> whole_below_999 (qty x)) \<longrightarrow>
            decQty i (incQty i st) = st)
       \<and> ((\<forall>x\<in>set (cart st). same_id i x \<longrightarrow> qty x = Finite 999) \<longrightarrow>
            decQty i (incQty i st) =
              st\<lparr>cart := map (\<lambda>x. if same_id i x then x\<lparr>qty := Finite 998\<rparr> else x) (cart st)\<rparr>)"
proof (intro conjI impI)
  from assms have pos: "\<forall>x\<in>set (cart st). positive_qty x" by (rule reachable_positive)
  let ?inc = "\<lambda>x. if same_id i x then x\<lparr>qty := js_min (Finite 999) (num_add (qty x) (Finite 1))\<rparr> else x"
  let ?dec = "\<lambda>x. if same_id i x then x\<lparr>qty := js_max (Finite 0) (num_sub (qty x) (Finite 1))\<rparr> else x"
  {
    assume w: "\<forall>x\<in>set (cart st). same_id i x \<longrightarrow> whole_below_999 (qty x)"
    have "map ?dec (map ?inc (cart st)) = map (\<lambda>x. x) (cart st)"
      unfolding map_map comp_def
    proof (rule map_cong[OF refl])
      fix x assume "x \<in> set (cart st)"
      with pos w have "positive_qty x" "same_id i x \<longrightarrow> whole_below_999 (qty x)" by auto
      then show "?dec (?inc x) = x" by (rule inc_dec_line)
    qed
    then have "map ?dec (map ?inc (cart st)) = cart st" by simp
    then show "decQty i (incQty i st) = st"
      by (simp add: decQty_def incQty_def filter_positive[OF pos])
  }
  assume c: "\<forall>x\<in>set (cart st). same_id i x \<longrightarrow> qty x = Finite 999"
  let ?to = "\<lambda>x. if same_id i x then x\<lparr>qty := Finite 998\<rparr> else x"
  have m: "map ?dec (map ?inc (cart st)) = map ?to (cart st)"
    unfolding map_map comp_def
  proof (rule map_cong[OF refl])
    fix x assume "x \<in> set (cart st)"
    with c have "same_id i x \<longrightarrow> qty x = Finite 999" by simp
    then show "?dec (?inc x) = ?to x" by (rule inc_dec_line_999)
  qed
  from pos have "\<forall>x\<in>set (map ?to (cart st)). positive_qty x"
    by (auto simp: positive_qty_iff)
  then have f: "filter (\<lambda>x. num_gt (qty x) (Finite 0)) (map ?to (cart st)) = map ?to (cart st)"
    by (rule filter_positive)
  have "decQty i (incQty i st) =
      st\<lparr>cart := filter (\<lambda>x. num_gt (qty x) (Finite 0)) (map ?dec (map ?inc (cart st)))\<rparr>"
    by (simp add: decQty_def incQty_def del: map_map)
  also have "\<dots> = st\<lparr>cart := map ?to (cart st)\<rparr>" by (simp only: m f)
  finally show "decQty i (incQty i st) = st\<lparr>cart := map ?to (cart st)\<rparr>" .
qed

theorem inc_dec_roundtrip_witness:
  "reachable no_strings (with_A 5) \<and>
   cart (with_A 5) = [\<lparr>productOf = item_A, qty = Finite 5\<rparr>] \<and>
   same_id (JStr ''A'') (hd (cart (with_A 5))) \<and> whole_below_999 (Finite 5) \<and>
   cart (incQty (JStr ''A'') (with_A 5)) = [\<lparr>productOf = item_A, qty = Finite 6\<rparr>] \<and>
   decQty (JStr ''A'') (incQty (JStr ''A'') (with_A 5)) = with_A 5 \<and>
   reachable no_strings (with_A 999) \<and>
   cart (with_A 999) = [\<lparr>productOf = item_A, qty = Finite 999\<rparr>] \<and>
   same_id (JStr ''A'') (hd (cart (with_A 999))) \<and>
   cart (decQty (JStr ''A'') (incQty (JStr ''A'') (with_A 999))) =
     [\<lparr>productOf = item_A, qty = Finite 998\<rparr>]"
proof -
  have c: "cart (with_A 5) = [\<lparr>productOf = item_A, qty = Finite 5\<rparr>]"
    and c9: "cart (with_A 999) = [\<lparr>productOf = item_A, qty = Finite 999\<rparr>]"
    by (simp_all add: with_A_eval)
  have h1: "reachable no_strings (with_A 5)" "reachable no_strings (with_A 999)"
    by (rule reachable_with_A)+
  have w: "whole_below_999 (Finite 5)" by (simp add: whole_below_999_def)
  then have h2: "\<forall>x\<in>set (cart (with_A 5)). same_id (JStr ''A'') x \<longrightarrow> whole_below_999 (qty x)"
    by (simp add: c)
  have h3: "\<forall>x\<in>set (cart (with_A 999)). same_id (JStr ''A'') x \<longrightarrow> qty x = Finite 999"
    by (simp add: c9)
  have s: "same_id (JStr ''A'') (hd (cart (with_A 5)))"
    "same_id (JStr ''A'') (hd (cart (with_A 999)))"
    by (simp_all add: c c9 same_id_def id_A)
  have i: "cart (incQty (JStr ''A'') (with_A 5)) = [\<lparr>productOf = item_A, qty = Finite 6\<rparr>]"
    by (simp add: incQty_def c same_id_def id_A js_min_Finite)
  from inc_dec_roundtrip[OF h1(1), of "JStr ''A''"] h2
  have r1: "decQty (JStr ''A'') (incQty (JStr ''A'') (with_A 5)) = with_A 5" by blast
  from inc_dec_roundtrip[OF h1(2), of "JStr ''A''"] h3
  have "decQty (JStr ''A'') (incQty (JStr ''A'') (with_A 999)) =
      (with_A 999)\<lparr>cart := map (\<lambda>x. if same_id (JStr ''A'') x then x\<lparr>qty := Finite 998\<rparr> else x)
        (cart (with_A 999))\<rparr>" by blast
  then have r2: "cart (decQty (JStr ''A'') (incQty (JStr ''A'') (with_A 999))) =
     [\<lparr>productOf = item_A, qty = Finite 998\<rparr>]"
    by (simp add: c9 same_id_def id_A)
  from c c9 h1 w s i r1 r2 show ?thesis by blast
qed

theorem inc_dec_roundtrip_counterexample:
  "reachable no_strings (with_A (1997 / 2)) \<and>
   cart (with_A (1997 / 2)) = [\<lparr>productOf = item_A, qty = Finite (1997 / 2)\<rparr>] \<and>
   num_gt (Finite 999) (Finite (1997 / 2)) \<and>
   cart (incQty (JStr ''A'') (with_A (1997 / 2))) = [\<lparr>productOf = item_A, qty = Finite 999\<rparr>] \<and>
   cart (decQty (JStr ''A'') (incQty (JStr ''A'') (with_A (1997 / 2)))) =
     [\<lparr>productOf = item_A, qty = Finite 998\<rparr>] \<and>
   decQty (JStr ''A'') (incQty (JStr ''A'') (with_A (1997 / 2))) \<noteq> with_A (1997 / 2)"
proof -
  have c: "cart (with_A (1997 / 2)) = [\<lparr>productOf = item_A, qty = Finite (1997 / 2)\<rparr>]"
    by (simp add: with_A_eval)
  have h1: "reachable no_strings (with_A (1997 / 2))" by (rule reachable_with_A)
  have i: "cart (incQty (JStr ''A'') (with_A (1997 / 2))) = [\<lparr>productOf = item_A, qty = Finite 999\<rparr>]"
    by (simp add: incQty_def c same_id_def id_A js_min_Finite)
  have d: "cart (decQty (JStr ''A'') (incQty (JStr ''A'') (with_A (1997 / 2)))) =
     [\<lparr>productOf = item_A, qty = Finite 998\<rparr>]"
    by (simp add: decQty_def i same_id_def id_A js_max_Finite num_sub_def)
  have "cart (decQty (JStr ''A'') (incQty (JStr ''A'') (with_A (1997 / 2)))) \<noteq> cart (with_A (1997 / 2))"
    by (simp add: d c)
  then have n: "decQty (JStr ''A'') (incQty (JStr ''A'') (with_A (1997 / 2))) \<noteq> with_A (1997 / 2)"
    by auto
  from c h1 i d n show ?thesis by simp
qed

text \<open>
  C8. The body that \<open>placeOrder\<close> sends carries the payment method \<open>cash\<close> when the
  checkout details leave it unset. In every state the dashboard reaches, the body that a
  click on Confirm Order sends carries one of \<open>cash\<close>, \<open>card\<close> and \<open>bank\<close>.
\<close>

theorem payment_method_of_request:
  "(\<not> truthy (extra_payment_method extra) \<and>
      snd (placeOrder s2n extra post reload st) = Some body \<longrightarrow>
      payment_method body = JStr ''cash'')
   \<and> (reachable s2n st \<and> snd (confirmOrder s2n post reload st) = Some body \<longrightarrow>
        payment_method body \<in> {JStr ''cash'', JStr ''card'', JStr ''bank''})"
proof (intro conjI impI)
  assume "\<not> truthy (extra_payment_method extra) \<and>
      snd (placeOrder s2n extra post reload st) = Some body"
  with placeOrder_body[of s2n extra post reload st body]
  show "payment_method body = JStr ''cash''" by (simp add: js_or_def)
next
  assume a: "reachable s2n st \<and> snd (confirmOrder s2n post reload st) = Some body"
  then have "reachable s2n st" by simp
  then have pm: "paymentMethod st \<in> {''cash'', ''bank'', ''card''}"
    by (rule reachable_payment)
  let ?extra = "\<lparr>extra_delivery_address = JStr (deliveryAddress st),
           extra_delivery_date = JStr (deliveryDate st),
           extra_payment_method = JStr (paymentMethod st),
           extra_note = JStr (orderNote st)\<rparr>"
  from a have "snd (placeOrder s2n ?extra post reload st) = Some body"
    by (auto simp: confirmOrder_def split: if_splits)
  from placeOrder_body[OF this]
  have "payment_method body = js_or (JStr (paymentMethod st)) (JStr ''cash'')" by simp
  with pm show "payment_method body \<in> {JStr ''cash'', JStr ''card'', JStr ''bank''}"
    by (auto simp: js_or_def)
qed

theorem payment_method_of_request_witness:
  "\<not> truthy (extra_payment_method blank_details) \<and>
   snd (placeOrder no_strings blank_details accepted accepted (with_A 1)) \<noteq> None \<and>
   payment_method (the (snd (placeOrder no_strings blank_details accepted accepted (with_A 1)))) =
     JStr ''cash'' \<and>
   reachable no_strings checkout_A \<and>
   snd (confirmOrder no_strings rejected accepted checkout_A) \<noteq> None \<and>
   payment_method (the (snd (confirmOrder no_strings rejected accepted checkout_A))) = JStr ''card'' \<and>
   payment_method (the (snd (confirmOrder no_strings rejected accepted checkout_A)))
     \<in> {JStr ''cash'', JStr ''card'', JStr ''bank''}"
proof -
  let ?b1 = "the (snd (placeOrder no_strings blank_details accepted accepted (with_A 1)))"
  let ?b2 = "the (snd (confirmOrder no_strings rejected accepted checkout_A))"
  have h1: "\<not> truthy (extra_payment_method blank_details)" by (simp add: blank_details_def)
  have h2: "snd (placeOrder no_strings blank_details accepted accepted (with_A 1)) = Some ?b1"
    by (simp add: place_blank_A)
  have h3: "reachable no_strings checkout_A" by (rule reachable_checkout_A)
  have h4: "snd (confirmOrder no_strings rejected accepted checkout_A) = Some ?b2"
    by (simp add: confirm_checkout_A)
  from payment_method_of_request[where extra = blank_details and ?s2n = no_strings
      and post = accepted and reload = accepted and st = "with_A 1" and body = ?b1] h1 h2
  have r1: "payment_method ?b1 = JStr ''cash''" by blast
  from payment_method_of_request[where ?s2n = no_strings and post = rejected
      and reload = accepted and st = checkout_A and body = ?b2] h3 h4
  have r2: "payment_method ?b2 \<in> {JStr ''cash'', JStr ''card'', JStr ''bank''}" by blast
  have r3: "payment_method ?b2 = JStr ''card''" by (simp add: confirm_checkout_A)
  have n: "snd (placeOrder no_strings blank_details accepted accepted (with_A 1)) \<noteq> None"
    "snd (confirmOrder no_strings rejected accepted checkout_A) \<noteq> None"
    by (simp_all add: place_blank_A confirm_checkout_A)
  from h1 h3 n r1 r2 r3 show ?thesis by blast
qed

text \<open>
  C4. As stated the claim fails whichever handler is the submission. A click on Confirm
  Order with an empty cart and an address reports the missing supplier, not the empty
  cart: the handler tests the address, then the supplier, and only then calls
  \<open>placeOrder\<close>. \<open>placeOrder\<close> itself does not look at the address and sends a blank one.
  Amended: Confirm Order fails with the missing-address message when the address is empty
  or white space only, and otherwise with the missing-supplier message when the cart has
  no supplier identifier, which includes the empty cart; \<open>placeOrder\<close> fails with the
  empty-cart message on an empty cart and with its missing-supplier message on a
  non-empty cart without supplier identifier; each of these failures changes the error
  message (and for the empty cart the tab) and nothing else, and an order request that is
  not accepted leaves the cart as it was.
\<close>

theorem submit_validation:
  "((\<forall>c\<in>set (deliveryAddress st). is_ws c) \<longrightarrow>
      confirmOrder s2n post reload st = (st\<lparr>err := ''Please enter delivery address.''\<rparr>, None))
   \<and> ((\<exists>c\<in>set (deliveryAddress st). \<not> is_ws c) \<and> \<not> truthy (cartSupplierId (cart st)) \<longrightarrow>
      confirmOrder s2n post reload st = (st\<lparr>err := ''Supplier ID missing in cart items.''\<rparr>, None))
   \<and> (cart st = [] \<longrightarrow>
      \<not> truthy (cartSupplierId (cart st)) \<and>
      placeOrder s2n extra post reload st = (st\<lparr>err := ''Cart is empty.'', tab := ProductsTab\<rparr>, None))
   \<and> (cart st \<noteq> [] \<and> \<not> truthy (cartSupplierId (cart st)) \<longrightarrow>
      placeOrder s2n extra post reload st =
        (st\<lparr>err := ''Cannot place order: supplier not found for cart items.''\<rparr>, None))
   \<and> ((\<forall>m. post \<noteq> Responded True m) \<longrightarrow>
      cart (fst (placeOrder s2n extra post reload st)) = cart st \<and>
      cart (fst (confirmOrder s2n post reload st)) = cart st)"
proof (intro conjI impI)
  assume "\<forall>c\<in>set (deliveryAddress st). is_ws c"
  then have "trim (deliveryAddress st) = []" by (simp add: trim_empty_iff)
  then show "confirmOrder s2n post reload st =
      (st\<lparr>err := ''Please enter delivery address.''\<rparr>, None)"
    by (simp add: confirmOrder_def)
next
  assume a: "(\<exists>c\<in>set (deliveryAddress st). \<not> is_ws c) \<and> \<not> truthy (cartSupplierId (cart st))"
  then have "trim (deliveryAddress st) \<noteq> []" by (simp add: trim_empty_iff)
  with a show "confirmOrder s2n post reload st =
      (st\<lparr>err := ''Supplier ID missing in cart items.''\<rparr>, None)"
    by (simp add: confirmOrder_def)
next
  assume "cart st = []"
  then show "\<not> truthy (cartSupplierId (cart st))" by (simp add: cartSupplierId_def)
next
  assume "cart st = []"
  then show "placeOrder s2n extra post reload st =
      (st\<lparr>err := ''Cart is empty.'', tab := ProductsTab\<rparr>, None)"
    by (simp add: placeOrder_def)
next
  assume "cart st \<noteq> [] \<and> \<not> truthy (cartSupplierId (cart st))"
  then show "placeOrder s2n extra post reload st =
        (st\<lparr>err := ''Cannot place order: supplier not found for cart items.''\<rparr>, None)"
    by (simp add: placeOrder_def Let_def)
next
  assume "\<forall>m. post \<noteq> Responded True m"
  then show "cart (fst (placeOrder s2n extra post reload st)) = cart st"
    by (rule placeOrder_rejected_cart)
next
  assume "\<forall>m. post \<noteq> Responded True m"
  then show "cart (fst (confirmOrder s2n post reload st)) = cart st"
    by (rule confirmOrder_rejected_cart)
qed

theorem submit_validation_witness:
  "(let st = (with_A 1)\<lparr>deliveryAddress := ''   ''\<rparr> in
      deliveryAddress st \<noteq> [] \<and> list_all is_ws (deliveryAddress st) \<and>
      confirmOrder no_strings accepted accepted st =
        (st\<lparr>err := ''Please enter delivery address.''\<rparr>, None)) \<and>
   (\<exists>c\<in>set (deliveryAddress checkout_empty). \<not> is_ws c) \<and>
   \<not> truthy (cartSupplierId (cart checkout_empty)) \<and>
   confirmOrder no_strings accepted accepted checkout_empty =
     (checkout_empty\<lparr>err := ''Supplier ID missing in cart items.''\<rparr>, None) \<and>
   cart initial = [] \<and>
   placeOrder no_strings blank_details accepted accepted initial =
     (initial\<lparr>err := ''Cart is empty.'', tab := ProductsTab\<rparr>, None) \<and>
   (let st = initial\<lparr>cart := [\<lparr>productOf = item_C, qty = Finite 1\<rparr>]\<rparr> in
      cart st \<noteq> [] \<and> \<not> truthy (cartSupplierId (cart st)) \<and>
      placeOrder no_strings blank_details accepted accepted st =
        (st\<lparr>err := ''Cannot place order: supplier not found for cart items.''\<rparr>, None)) \<and>
   rejected = Responded False ''Out of stock'' \<and>
   cart (fst (placeOrder no_strings blank_details rejected accepted checkout_A)) = cart checkout_A \<and>
   cart (fst (confirmOrder no_strings rejected accepted checkout_A)) = cart checkout_A \<and>
   cart checkout_A = [\<lparr>productOf = item_A, qty = Finite 1\<rparr>]"
proof -
  let ?ws = "(with_A 1)\<lparr>deliveryAddress := ''   ''\<rparr>"
  let ?nc = "initial\<lparr>cart := [\<lparr>productOf = item_C, qty = Finite 1\<rparr>]\<rparr>"
  have h1: "\<forall>c\<in>set (deliveryAddress ?ws). is_ws c" "deliveryAddress ?ws \<noteq> []"
    "list_all is_ws (deliveryAddress ?ws)"
    by (simp_all add: is_ws_def)
  have h2: "\<exists>c\<in>set (deliveryAddress checkout_empty). \<not> is_ws c"
    by (simp add: checkout_empty_eval is_ws_def)
  have h3: "\<not> truthy (cartSupplierId (cart checkout_empty))"
    by (simp add: checkout_empty_eval initial_def cartSupplierId_def)
  have h4: "cart initial = []" by (simp add: initial_def)
  have h5: "cart ?nc \<noteq> []" "\<not> truthy (cartSupplierId (cart ?nc))"
    by (simp_all add: cartSupplierId_def supplier_C)
  have h6: "\<forall>m. rejected \<noteq> Responded True m" "rejected = Responded False ''Out of stock''"
    by (simp_all add: rejected_def)
  have c: "cart checkout_A = [\<lparr>productOf = item_A, qty = Finite 1\<rparr>]"
    by (simp add: checkout_A_eval)
  from submit_validation[where st = ?ws and ?s2n = no_strings and post = accepted
      and reload = accepted] h1(1)
  have r1: "confirmOrder no_strings accepted accepted ?ws =
        (?ws\<lparr>err := ''Please enter delivery address.''\<rparr>, None)" by blast
  from submit_validation[where st = checkout_empty and ?s2n = no_strings and post = accepted
      and reload = accepted] h2 h3
  have r2: "confirmOrder no_strings accepted accepted checkout_empty =
     (checkout_empty\<lparr>err := ''Supplier ID missing in cart items.''\<rparr>, None)" by blast
  from submit_validation[where st = initial and ?s2n = no_strings and post = accepted
      and reload = accepted and extra = blank_details] h4
  have r3: "placeOrder no_strings blank_details accepted accepted initial =
     (initial\<lparr>err := ''Cart is empty.'', tab := ProductsTab\<rparr>, None)" by blast
  from submit_validation[where st = ?nc and ?s2n = no_strings and post = accepted
      and reload = accepted and extra = blank_details] h5
  have r4: "placeOrder no_strings blank_details accepted accepted ?nc =
        (?nc\<lparr>err := ''Cannot place order: supplier not found for cart items.''\<rparr>, None)"
    by blast
  from submit_validation[where st = checkout_A and ?s2n = no_strings and post = rejected
      and reload = accepted and extra = blank_details] h6(1)
  have r5: "cart (fst (placeOrder no_strings blank_details rejected accepted checkout_A)) =
      cart checkout_A \<and>
    cart (fst (confirmOrder no_strings rejected accepted checkout_A)) = cart checkout_A"
    by blast
  from h1(2,3) h2 h3 h4 h5 h6(2) c r1 r2 r3 r4 r5 show ?thesis
    unfolding Let_def by blast
qed

theorem submit_validation_counterexample:
  "cart checkout_empty = [] \<and>
   confirmOrder no_strings accepted accepted checkout_empty =
     (checkout_empty\<lparr>err := ''Supplier ID missing in cart items.''\<rparr>, None) \<and>
   err (fst (confirmOrder no_strings accepted accepted checkout_empty)) \<noteq> ''Cart is empty.'' \<and>
   extra_delivery_address blank_details = JStr ''   '' \<and> trim ''   '' = [] \<and>
   snd (placeOrder no_strings blank_details accepted accepted (with_A 1)) =
     Some \<lparr>supplier_id = JStr ''S1'',
        items = [\<lparr>product_id = JStr ''A'', item_qty = Finite 1, item_price = JNum (Finite 10)\<rparr>],
        delivery_address = JStr ''   '', delivery_date = JStr [],
        payment_method = JStr ''cash'', order_note = JStr [], total_amount = Finite 10\<rparr> \<and>
   err (fst (placeOrder no_strings blank_details accepted accepted (with_A 1))) = [] \<and>
   cart (with_A 1) \<noteq> [] \<and>
   cart (fst (placeOrder no_strings blank_details accepted accepted (with_A 1))) = []"
proof -
  have a: "confirmOrder no_strings accepted accepted checkout_empty =
     (checkout_empty\<lparr>err := ''Supplier ID missing in cart items.''\<rparr>, None)"
    by (simp add: confirmOrder_def checkout_empty_eval initial_def trim_def is_ws_def
        cartSupplierId_def)
  have b: "err (fst (placeOrder no_strings blank_details accepted accepted (with_A 1))) = [] \<and>
    cart (fst (placeOrder no_strings blank_details accepted accepted (with_A 1))) = []"
    by (simp add: placeOrder_def with_A_eval initial_def blank_details_def accepted_def
      cartSupplierId_def getProductSupplierId_def item_A_def cartTotal_def lineTotal_def
      js_or_def loadOrders_def clearCart_def Let_def)
  have c: "cart checkout_empty = []" "cart (with_A 1) \<noteq> []"
    by (simp_all add: checkout_empty_eval initial_def with_A_eval)
  have d: "extra_delivery_address blank_details = JStr ''   ''" "trim ''   '' = []"
    by (simp_all add: blank_details_def trim_def is_ws_def)
  from a b c d place_blank_A show ?thesis by simp
qed




text \<open>
  C3. \<open>updateQty\<close> has no upper bound: on a cart with item A, the quantity 1000 is stored
  as 1000, where the claim says 999. \<open>incQty\<close> and \<open>addToCart\<close> cap at 999, so the next
  increment brings that line down to 999.
\<close>

theorem updateQty_no_upper_clamp:
  "cart (with_A 1) = [\<lparr>productOf = item_A, qty = Finite 1\<rparr>] \<and>
   cart (updateQty no_strings (JStr ''A'') (JNum (Finite 1000)) (with_A 1)) =
     [\<lparr>productOf = item_A, qty = Finite 1000\<rparr>] \<and>
   cart (incQty (JStr ''A'') (updateQty no_strings (JStr ''A'') (JNum (Finite 1000)) (with_A 1))) =
     [\<lparr>productOf = item_A, qty = Finite 999\<rparr>]"
  by (simp add: with_A_eval updateQty_def incQty_def same_id_def id_A js_max_Finite js_min_Finite)

section \<open>Further properties\<close>

text \<open>
  X1. In every state the dashboard reaches, \<open>updateQty\<close> with a quantity whose conversion is
  not finite changes nothing; with a conversion \<open>n\<close> between 0 (exclusive) and 999 it sets
  the quantity of the lines with the identifier to \<open>n\<close> and leaves the other lines and
  their order as they are; with a conversion of 0 or less it removes the lines with the
  identifier and nothing else.
\<close>

theorem updateQty_readback:
  assumes "reachable s2n st"
  shows "(\<not> isFinite (Number s2n q) \<longrightarrow> updateQty s2n i q st = st)
       \<and> (\<forall>n. Number s2n q = Finite n \<and> 0 < n \<and> n \<le> 999 \<longrightarrow>
             cart (updateQty s2n i q st) =
               map (\<lambda>x. if same_id i x then x\<lparr>qty := Finite n\<rparr> else x) (cart st))
       \<and> (\<forall>n. Number s2n q = Finite n \<and> n \<le> 0 \<longrightarrow>
             cart (updateQty s2n i q st) = filter (\<lambda>x. \<not> same_id i x) (cart st))"
proof (intro conjI impI allI)
  from assms have pos: "\<forall>x\<in>set (cart st). positive_qty x" by (rule reachable_positive)
  {
    assume "\<not> isFinite (Number s2n q)"
    then show "updateQty s2n i q st = st" by (simp add: updateQty_def Let_def)
  }
  {
    fix n assume n: "Number s2n q = Finite n \<and> 0 < n \<and> n \<le> 999"
    let ?m = "map (\<lambda>x. if same_id i x then x\<lparr>qty := Finite n\<rparr> else x) (cart st)"
    from pos n have "\<forall>x\<in>set ?m. positive_qty x" by (auto simp: positive_qty_iff)
    moreover from n have "js_max (Finite 0) (Finite n) = Finite n"
      by (simp add: js_max_Finite)
    ultimately show "cart (updateQty s2n i q st) = ?m"
      using n by (simp add: updateQty_def Let_def filter_positive)
  }
  fix n assume n: "Number s2n q = Finite n \<and> n \<le> 0"
  then have mx: "js_max (Finite 0) (Finite n) = Finite 0" by (simp add: js_max_Finite)
  from n have "cart (updateQty s2n i q st) =
      filter (\<lambda>x. num_gt (qty x) (Finite 0))
        (map (\<lambda>x. if same_id i x then x\<lparr>qty := js_max (Finite 0) (Finite n)\<rparr> else x) (cart st))"
    by (simp add: updateQty_def Let_def)
  also have "\<dots> = filter (\<lambda>x. num_gt (qty x) (Finite 0))
        (map (\<lambda>x. if same_id i x then x\<lparr>qty := Finite 0\<rparr> else x) (cart st))"
    by (simp only: mx)
  also from pos have "\<dots> = filter (\<lambda>x. \<not> same_id i x) (cart st)" by (rule filter_zeroed)
  finally show "cart (updateQty s2n i q st) = filter (\<lambda>x. \<not> same_id i x) (cart st)" .
qed


theorem updateQty_readback_witness:
  "reachable no_strings (with_A 3) \<and>
   cart (with_A 3) = [\<lparr>productOf = item_A, qty = Finite 3\<rparr>] \<and>
   \<not> isFinite (Number no_strings (JNum PosInf)) \<and>
   updateQty no_strings (JStr ''A'') (JNum PosInf) (with_A 3) = with_A 3 \<and>
   Number no_strings (JNum (Finite 999)) = Finite 999 \<and>
   cart (updateQty no_strings (JStr ''A'') (JNum (Finite 999)) (with_A 3)) =
     [\<lparr>productOf = item_A, qty = Finite 999\<rparr>] \<and>
   Number no_strings (JNum (Finite (- 4))) = Finite (- 4) \<and>
   cart (updateQty no_strings (JStr ''A'') (JNum (Finite (- 4))) (with_A 3)) = []"
proof -
  have c: "cart (with_A 3) = [\<lparr>productOf = item_A, qty = Finite 3\<rparr>]"
    by (simp add: with_A_eval)
  have h: "reachable no_strings (with_A 3)" by (rule reachable_with_A)
  have s: "same_id (JStr ''A'') \<lparr>productOf = item_A, qty = Finite 3\<rparr>"
    by (simp add: same_id_def id_A)
  note inst = updateQty_readback[OF h, of _ "JStr ''A''"]
  from inst[of "JNum PosInf"]
  have r1: "updateQty no_strings (JStr ''A'') (JNum PosInf) (with_A 3) = with_A 3" by simp
  from inst[of "JNum (Finite 999)"]
  have r2: "cart (updateQty no_strings (JStr ''A'') (JNum (Finite 999)) (with_A 3)) =
     [\<lparr>productOf = item_A, qty = Finite 999\<rparr>]" by (simp add: c s)
  from inst[of "JNum (Finite (- 4))"]
  have r3: "cart (updateQty no_strings (JStr ''A'') (JNum (Finite (- 4))) (with_A 3)) = []"
    by (simp add: c s)
  from c h r1 r2 r3 show ?thesis by simp
qed

text \<open>
  X2. Every line of a cart the dashboard reaches has a finite quantity above zero.
\<close>

theorem reachable_quantities:
  "reachable s2n st \<Longrightarrow> \<forall>x\<in>set (cart st). \<exists>q. qty x = Finite q \<and> 0 < q"
  using reachable_positive[of s2n st] by (simp add: positive_qty_iff)

theorem reachable_quantities_witness:
  "reachable no_strings (with_A (1 / 2)) \<and>
   cart (with_A (1 / 2)) = [\<lparr>productOf = item_A, qty = Finite (1 / 2)\<rparr>] \<and>
   (\<exists>q. qty (hd (cart (with_A (1 / 2)))) = Finite q \<and> 0 < q)"
proof -
  have c: "cart (with_A (1 / 2)) = [\<lparr>productOf = item_A, qty = Finite (1 / 2)\<rparr>]"
    by (simp add: with_A_eval)
  have h: "reachable no_strings (with_A (1 / 2))" by (rule reachable_with_A)
  from c have "hd (cart (with_A (1 / 2))) \<in> set (cart (with_A (1 / 2)))" by simp
  with reachable_quantities[OF h]
  have "\<exists>q. qty (hd (cart (with_A (1 / 2)))) = Finite q \<and> 0 < q" by blast
  with c h show ?thesis by blast
qed

end
